theory Spec2Isabelle
  imports Main "HOL-Library.Sublist" "HOL-Library.Product_Lexorder"
begin

section \<open>Decorator.ts: CodeMirror 5 style decorations on a CodeMirror 6 editor\<close>

text \<open>
  The development embeds \<^verbatim>\<open>packages/editor/CodeMirror/CodeMirror5Emulation/Decorator.ts\<close>.
  JavaScript numbers that hold document offsets and line numbers are \<^typ>\<open>int\<close>.
  A thrown exception is the \<open>Inl\<close> branch of a sum; a loop that need not end returns
  \<open>None\<close> when it does not.

  The CodeMirror library is the host of this code and is not part of it. What the code uses
  of it is modelled by its documented contract, which is also what the specification asks
  of the host (position mapping of an offset, line lookup by offset and by number, the
  visible ranges, dispatch of effects as one transaction):
  \<^item> a document is its text; lines are separated by the newline character, \<open>doc.line\<close> and
    \<open>doc.lineAt\<close> raise \<open>RangeError\<close> outside the document;
  \<^item> a \<open>RangeSet\<close> is the list of its ranges in ascending order of \<open>from\<close> and, at one
    \<open>from\<close>, of the start side of the decoration; \<open>update\<close> with \<open>add\<close> inserts, with
    \<open>filter\<close> keeps the ranges the predicate accepts; \<open>between\<close> visits the ranges
    touching a region; \<open>map\<close> returns the set itself for an empty change set, and
    otherwise moves both ends of every range and drops a range that the change inverts
    or a mark that it makes empty;
  \<^item> a decoration is the factory that made it together with its \<open>spec\<close>, the object literal
    given to the factory; \<open>eq\<close> compares the factory and the class attribute;
    \<open>decoration.range(from, to)\<close> raises \<open>RangeError\<close> for a mark that is empty or
    inverted, and for a line or widget decoration that is not zero-width;
  \<^item> a change description is its position mapping \<open>mapPos\<close>, without the association
    side and the deletion tracking of the library; a change set is a change description
    that also tells whether it is empty.
\<close>

subsection \<open>Errors\<close>

datatype error = RangeError | TypeError | GenericError string

subsection \<open>The document\<close>

type_synonym document = string

record line =
  line_from :: int
  line_to :: int
  number :: int
  line_text :: string

fun split_lines :: "string \<Rightarrow> string list" where
  "split_lines [] = [[]]"
| "split_lines (c # cs) =
     (if c = CHR 0x0A then [] # split_lines cs
      else (case split_lines cs of
              [] \<Rightarrow> [[c]]
            | l # ls \<Rightarrow> (c # l) # ls))"

fun mk_lines :: "int \<Rightarrow> int \<Rightarrow> string list \<Rightarrow> line list" where
  "mk_lines off n [] = []"
| "mk_lines off n (t # ts) =
     \<lparr>line_from = off, line_to = off + int (length t), number = n, line_text = t\<rparr>
       # mk_lines (off + int (length t) + 1) (n + 1) ts"

definition doc_lines :: "document \<Rightarrow> line list" where
  "doc_lines d = mk_lines 0 1 (split_lines d)"

definition doc_length :: "document \<Rightarrow> int" where
  "doc_length d = int (length d)"

text \<open>\<open>doc.line(n)\<close>, one-indexed.\<close>

definition doc_line :: "document \<Rightarrow> int \<Rightarrow> error + line" where
  "doc_line d n =
     (if n < 1 \<or> n > int (length (doc_lines d)) then Inl RangeError
      else Inr (doc_lines d ! nat (n - 1)))"

text \<open>\<open>doc.lineAt(pos)\<close>: the line whose span \<open>[from, to]\<close> holds the offset.\<close>

definition doc_lineAt :: "document \<Rightarrow> int \<Rightarrow> error + line" where
  "doc_lineAt d pos =
     (if pos < 0 \<or> pos > doc_length d then Inl RangeError
      else (case find (\<lambda>l. pos \<le> line_to l) (doc_lines d) of
              None \<Rightarrow> Inl RangeError
            | Some l \<Rightarrow> Inr l))"

subsection \<open>Ranges and the remap rule\<close>

text \<open>\<open>interface DecorationRange\<close> and the records that extend it.\<close>

record decoration_range =
  range_from :: int
  range_to :: int

type_synonym change_desc = "int \<Rightarrow> int"

text \<open>\<open>mapRangeConfig.map\<close>, generic in the record that extends the range.\<close>

definition mapRange :: "change_desc \<Rightarrow> 'a decoration_range_scheme \<Rightarrow> 'a decoration_range_scheme" where
  "mapRange change rng =
     (let from = change (range_from rng);
          to = change (range_to rng)
      in rng\<lparr>range_from := min from to, range_to := max from to\<rparr>)"

record css_decoration_spec = decoration_range +
  cssClass :: string
  css_id :: "nat option"

type_synonym html_element = nat

record line_widget_options =
  className :: "string option"
  above :: "bool option"

record line_widget_decoration_spec = decoration_range +
  element :: html_element
  options :: line_widget_options

subsection \<open>Effects\<close>

datatype effect =
    addLineDecorationEffect css_decoration_spec
  | removeLineDecorationEffect css_decoration_spec
  | addMarkDecorationEffect css_decoration_spec
  | removeMarkDecorationEffect css_decoration_spec
  | refreshOverlaysEffect
  | addLineWidgetEffect line_widget_decoration_spec
  | removeLineWidgetEffect html_element

text \<open>
  The mapping each effect type was defined with: \<open>mapRangeConfig\<close> for five of them;
  \<open>refreshOverlaysEffect\<close> and \<open>removeLineWidgetEffect\<close> are defined without a \<open>map\<close>, and
  such an effect is carried over a change as it is.
\<close>

fun effect_map :: "change_desc \<Rightarrow> effect \<Rightarrow> effect" where
  "effect_map change (addLineDecorationEffect v) = addLineDecorationEffect (mapRange change v)"
| "effect_map change (removeLineDecorationEffect v) = removeLineDecorationEffect (mapRange change v)"
| "effect_map change (addMarkDecorationEffect v) = addMarkDecorationEffect (mapRange change v)"
| "effect_map change (removeMarkDecorationEffect v) = removeMarkDecorationEffect (mapRange change v)"
| "effect_map change refreshOverlaysEffect = refreshOverlaysEffect"
| "effect_map change (addLineWidgetEffect v) = addLineWidgetEffect (mapRange change v)"
| "effect_map change (removeLineWidgetEffect el) = removeLineWidgetEffect el"

text \<open>The range an effect's value carries, when its type has one.\<close>

fun effect_range :: "effect \<Rightarrow> (int \<times> int) option" where
  "effect_range (addLineDecorationEffect v) = Some (range_from v, range_to v)"
| "effect_range (removeLineDecorationEffect v) = Some (range_from v, range_to v)"
| "effect_range (addMarkDecorationEffect v) = Some (range_from v, range_to v)"
| "effect_range (removeMarkDecorationEffect v) = Some (range_from v, range_to v)"
| "effect_range refreshOverlaysEffect = None"
| "effect_range (addLineWidgetEffect v) = Some (range_from v, range_to v)"
| "effect_range (removeLineWidgetEffect el) = None"

subsection \<open>Decorations and decoration sets\<close>

text \<open>\<open>class WidgetDecorationWrapper\<close>: the element and the options given to the constructor.\<close>

record widget_decoration_wrapper =
  wrapper_element :: html_element
  wrapper_options :: line_widget_options

text \<open>
  The \<open>spec\<close> of a decoration is the object literal handed to \<open>Decoration.line\<close>,
  \<open>Decoration.mark\<close> or \<open>Decoration.widget\<close>; a property the literal does not have is
  \<open>None\<close>. The code writes \<open>attributes.class\<close>, \<open>id\<close>, \<open>widget\<close>, \<open>side\<close> and \<open>block\<close>, and
  reads \<open>id\<close>, \<open>widget\<close> and \<open>class\<close>.
\<close>

record decoration_spec =
  spec_attributes_class :: "string option"
  spec_id :: "nat option"
  spec_class :: "string option"
  spec_widget :: "widget_decoration_wrapper option"
  spec_side :: "int option"
  spec_block :: "bool option"

datatype decoration_kind = LineDecoration | MarkDecoration | WidgetDecoration

record decoration =
  kind :: decoration_kind
  spec :: decoration_spec

definition Decoration_line :: "string \<Rightarrow> nat option \<Rightarrow> decoration" where
  "Decoration_line cls i =
     \<lparr>kind = LineDecoration,
      spec = \<lparr>spec_attributes_class = Some cls, spec_id = i, spec_class = None,
              spec_widget = None, spec_side = None, spec_block = None\<rparr>\<rparr>"

definition Decoration_mark :: "string \<Rightarrow> nat option \<Rightarrow> decoration" where
  "Decoration_mark cls i =
     \<lparr>kind = MarkDecoration,
      spec = \<lparr>spec_attributes_class = Some cls, spec_id = i, spec_class = None,
              spec_widget = None, spec_side = None, spec_block = None\<rparr>\<rparr>"

definition Decoration_widget :: "widget_decoration_wrapper \<Rightarrow> int \<Rightarrow> bool \<Rightarrow> decoration" where
  "Decoration_widget w s b =
     \<lparr>kind = WidgetDecoration,
      spec = \<lparr>spec_attributes_class = None, spec_id = None, spec_class = None,
              spec_widget = Some w, spec_side = Some s, spec_block = Some b\<rparr>\<rparr>"

text \<open>
  \<open>value.eq(other)\<close>: line and mark decorations are equal when the same factory made them
  with the same class attribute (the \<open>id\<close> is not compared); two widget decorations are
  equal when they wrap the same widget on the same side.
\<close>

definition decoration_eq :: "decoration \<Rightarrow> decoration \<Rightarrow> bool" where
  "decoration_eq a b =
     (kind a = kind b \<and>
      spec_attributes_class (spec a) = spec_attributes_class (spec b) \<and>
      spec_widget (spec a) = spec_widget (spec b) \<and>
      spec_side (spec a) = spec_side (spec b) \<and>
      spec_block (spec a) = spec_block (spec b))"

text \<open>
  The sides of CodeMirror's decorations, which order the ranges that start at one offset:
  a line decoration has \<open>Side.Line\<close> at both ends, a mark \<open>Side.NonIncStart\<close> and
  \<open>Side.NonIncEnd\<close>, a widget its \<open>side\<close> option, between \<open>-10000\<close> and \<open>10000\<close>, moved by
  \<open>Side.BlockAfter\<close> or \<open>Side.BlockBefore\<close> when it is a block, by \<open>Side.InlineAfter\<close> or
  \<open>Side.InlineBefore\<close> when it is not.
\<close>

definition widget_side :: "decoration \<Rightarrow> int" where
  "widget_side d =
     (let sd = max (- 10000) (min 10000 (case spec_side (spec d) of None \<Rightarrow> 0 | Some x \<Rightarrow> x))
      in if spec_block (spec d) = Some True
         then sd + (if sd > 0 then 300000000 else - 400000000)
         else sd + (if sd > 0 then 100000000 else - 100000000))"

definition startSide :: "decoration \<Rightarrow> int" where
  "startSide d =
     (case kind d of
        LineDecoration \<Rightarrow> - 200000000
      | MarkDecoration \<Rightarrow> 500000000
      | WidgetDecoration \<Rightarrow> widget_side d)"

definition endSide :: "decoration \<Rightarrow> int" where
  "endSide d =
     (case kind d of
        LineDecoration \<Rightarrow> - 200000000
      | MarkDecoration \<Rightarrow> - 600000000
      | WidgetDecoration \<Rightarrow> widget_side d)"

record decoration_in_range = decoration_range +
  range_value :: decoration

type_synonym decoration_set = "decoration_in_range list"

definition Decoration_none :: decoration_set where
  "Decoration_none = []"

text \<open>A range value, as \<open>Range.create\<close> builds it once the range has been accepted.\<close>

definition plain_range :: "decoration \<Rightarrow> int \<Rightarrow> int \<Rightarrow> decoration_in_range" where
  "plain_range d from to = \<lparr>range_from = from, range_to = to, range_value = d\<rparr>"

text \<open>
  \<open>decoration.range(from, to)\<close>: a mark decoration may not be empty, a line decoration and
  a widget decoration must be zero-width.
\<close>

definition range_at :: "decoration \<Rightarrow> int \<Rightarrow> int \<Rightarrow> error + decoration_in_range" where
  "range_at d from to =
     (case kind d of
        MarkDecoration \<Rightarrow>
          if from \<ge> to then Inl RangeError else Inr (plain_range d from to)
      | LineDecoration \<Rightarrow>
          if to \<noteq> from then Inl RangeError else Inr (plain_range d from to)
      | WidgetDecoration \<Rightarrow>
          if to \<noteq> from then Inl RangeError else Inr (plain_range d from to))"

text \<open>
  \<open>decorations.update({ add: [r] })\<close>: the new range goes before the first range of the
  set that does not come before it in the order of \<open>from\<close> and start side.
\<close>

definition update_add :: "decoration_in_range \<Rightarrow> decoration_set \<Rightarrow> decoration_set" where
  "update_add r ds = insort_key (\<lambda>x. (range_from x, startSide (range_value x))) r ds"

text \<open>\<open>decorations.update({ filter })\<close>: the filter returns true for a range that is kept.\<close>

definition update_filter ::
  "(int \<Rightarrow> int \<Rightarrow> decoration \<Rightarrow> bool) \<Rightarrow> decoration_set \<Rightarrow> decoration_set" where
  "update_filter f ds = filter (\<lambda>r. f (range_from r) (range_to r) (range_value r)) ds"

text \<open>\<open>decorations.between(from, to, f)\<close>: the ranges that touch \<open>[from, to]\<close>.\<close>

definition between :: "int \<Rightarrow> int \<Rightarrow> decoration_set \<Rightarrow> decoration_set" where
  "between from to ds = filter (\<lambda>r. from \<le> range_to r \<and> range_from r \<le> to) ds"

text \<open>
  A transaction's \<open>changes\<close>: the change description with \<open>changes.empty\<close>.
\<close>

record change_set =
  changes_empty :: bool
  changes_mapPos :: change_desc

text \<open>
  \<open>decorations.map(changes)\<close>. A zero-width range stays one; another range is dropped when
  the change inverts it, or makes it empty and its decoration starts on a positive and
  ends on a non-positive side, as a mark does.
\<close>

definition map_range :: "change_set \<Rightarrow> decoration_in_range \<Rightarrow> decoration_in_range list" where
  "map_range chs r =
     (if range_from r = range_to r
      then (let pos = changes_mapPos chs (range_from r)
            in [r\<lparr>range_from := pos, range_to := pos\<rparr>])
      else (let newFrom = changes_mapPos chs (range_from r);
                newTo = changes_mapPos chs (range_to r)
            in if newFrom > newTo \<or>
                  (newFrom = newTo \<and> startSide (range_value r) > 0 \<and> endSide (range_value r) \<le> 0)
               then []
               else if newFrom = newTo \<and> endSide (range_value r) < startSide (range_value r)
               then []
               else [r\<lparr>range_from := newFrom, range_to := newTo\<rparr>]))"

definition map_set :: "change_set \<Rightarrow> decoration_set \<Rightarrow> decoration_set" where
  "map_set chs ds = (if changes_empty chs then ds else concat (map (map_range chs) ds))"

subsection \<open>The editor and the decorator\<close>

record string_stream =
  stream_string :: string
  stream_pos :: int
  stream_tabSize :: int
  stream_indentUnit :: int

text \<open>
  \<open>StreamParser\<close>: the optional \<open>startState\<close> and \<open>token\<close>. A call of \<open>token\<close> may move the
  stream and change the state, and returns a string or \<open>null\<close>. The state \<open>None\<close> is the
  empty object the code uses when there is no \<open>startState\<close>.
\<close>

record 'st stream_parser =
  startState :: "(int \<Rightarrow> 'st) option"
  token :: "string_stream \<Rightarrow> 'st option \<Rightarrow> string option \<times> string_stream \<times> 'st option"

record editor_view =
  doc :: document
  visibleRanges :: "(int \<times> int) list"
  tabSize :: int
  indentUnit :: string

record 'st decorator =
  editor :: editor_view
  effectDecorations :: decoration_set
  nextLineWidgetId :: nat
  decorationCache :: "string \<rightharpoonup> decoration"
  overlays :: "'st stream_parser list"

record transaction =
  changes :: change_set
  effects :: "effect list"
  state_doc :: document

text \<open>\<open>Decorator.create\<close>: the fields' initial values.\<close>

definition create :: "editor_view \<Rightarrow> 'st decorator" where
  "create view =
     \<lparr>editor = view, effectDecorations = Decoration_none, nextLineWidgetId = 0,
      decorationCache = Map.empty, overlays = []\<rparr>"

subsection \<open>The decoration cache\<close>

definition classNameToCssDecoration ::
  "string \<Rightarrow> bool \<Rightarrow> nat option \<Rightarrow> (string \<rightharpoonup> decoration) \<Rightarrow> decoration \<times> (string \<rightharpoonup> decoration)" where
  "classNameToCssDecoration cls isLineDecoration i cache =
     (case (cache cls, i) of
        (Some cached, None) \<Rightarrow> (cached, cache)
      | _ \<Rightarrow>
          (let decoration =
                 (if isLineDecoration then Decoration_line cls i else Decoration_mark cls i)
           in (decoration, cache(cls \<mapsto> decoration))))"

subsection \<open>The effect reducer\<close>

text \<open>
  The body of the loop over a transaction's effects in \<open>updateEffectDecorations\<close>, on the
  pair of the decoration set and the cache.
\<close>

fun apply_effect ::
  "document \<Rightarrow> effect \<Rightarrow> decoration_set \<times> (string \<rightharpoonup> decoration)
     \<Rightarrow> error + decoration_set \<times> (string \<rightharpoonup> decoration)" where
  "apply_effect d (addMarkDecorationEffect v) (decorations, cache) =
     (let (decoration, cache') = classNameToCssDecoration (cssClass v) False (css_id v) cache;
          from = range_from v;
          to = range_to v
      in (case range_at decoration from to of
            Inl e \<Rightarrow> Inl e
          | Inr r \<Rightarrow> Inr (update_add r decorations, cache')))"
| "apply_effect d (addLineDecorationEffect v) (decorations, cache) =
     (let (decoration, cache') = classNameToCssDecoration (cssClass v) True (css_id v) cache;
          from = range_from v;
          to = from
      in (case range_at decoration from to of
            Inl e \<Rightarrow> Inl e
          | Inr r \<Rightarrow> Inr (update_add r decorations, cache')))"
| "apply_effect d (removeLineDecorationEffect v) (decorations, cache) =
     (case doc_lineAt d (range_from v) of
        Inl e \<Rightarrow> Inl e
      | Inr fromLine \<Rightarrow>
         (case doc_lineAt d (range_to v) of
            Inl e \<Rightarrow> Inl e
          | Inr toLine \<Rightarrow>
             (let targetFrom = line_from fromLine;
                  targetTo = line_to toLine;
                  targetId = css_id v;
                  (targetDecoration, cache') =
                     classNameToCssDecoration (cssClass v) True None cache
              in Inr (update_filter
                        (\<lambda>from to val.
                           if targetId \<noteq> None then spec_id (spec val) \<noteq> css_id v
                           else (let isInRange = (from \<ge> targetFrom \<and> to \<le> targetTo)
                                 in isInRange \<and> decoration_eq val targetDecoration))
                        decorations, cache'))))"
| "apply_effect d (removeMarkDecorationEffect v) (decorations, cache) =
     (case doc_lineAt d (range_from v) of
        Inl e \<Rightarrow> Inl e
      | Inr fromLine \<Rightarrow>
         (case doc_lineAt d (range_to v) of
            Inl e \<Rightarrow> Inl e
          | Inr toLine \<Rightarrow>
             (let targetFrom = line_from fromLine;
                  targetTo = line_to toLine;
                  targetId = css_id v;
                  (targetDecoration, cache') =
                     classNameToCssDecoration (cssClass v) False None cache
              in Inr (update_filter
                        (\<lambda>from to val.
                           if targetId \<noteq> None then spec_id (spec val) \<noteq> css_id v
                           else (let isInRange = (from \<ge> targetFrom \<and> to \<le> targetTo)
                                 in isInRange \<and> decoration_eq val targetDecoration))
                        decorations, cache'))))"
| "apply_effect d (addLineWidgetEffect v) (decorations, cache) =
     (let opts = options v;
          decoration = Decoration_widget
                         \<lparr>wrapper_element = element v, wrapper_options = opts\<rparr>
                         (if above opts = Some True then - 1 else 1) True;
          pos = (if above opts = Some True then range_from v else range_to v)
      in (case range_at decoration pos pos of
            Inl e \<Rightarrow> Inl e
          | Inr r \<Rightarrow> Inr (update_add r decorations, cache)))"
| "apply_effect d (removeLineWidgetEffect el) (decorations, cache) =
     Inr (update_filter
            (\<lambda>from to val. map_option wrapper_element (spec_widget (spec val)) \<noteq> Some el)
            decorations, cache)"
| "apply_effect d refreshOverlaysEffect (decorations, cache) = Inr (decorations, cache)"

fun apply_effects ::
  "document \<Rightarrow> effect list \<Rightarrow> decoration_set \<times> (string \<rightharpoonup> decoration)
     \<Rightarrow> error + decoration_set \<times> (string \<rightharpoonup> decoration)" where
  "apply_effects d [] s = Inr s"
| "apply_effects d (e # es) s =
     (case apply_effect d e s of Inl err \<Rightarrow> Inl err | Inr s' \<Rightarrow> apply_effects d es s')"

fun apply_transactions ::
  "transaction list \<Rightarrow> decoration_set \<times> (string \<rightharpoonup> decoration)
     \<Rightarrow> error + decoration_set \<times> (string \<rightharpoonup> decoration)" where
  "apply_transactions [] s = Inr s"
| "apply_transactions (tr # trs) (decorations, cache) =
     (case apply_effects (state_doc tr) (effects tr) (map_set (changes tr) decorations, cache) of
        Inl err \<Rightarrow> Inl err
      | Inr s' \<Rightarrow> apply_transactions trs s')"

definition updateEffectDecorations ::
  "transaction list \<Rightarrow> 'st decorator \<Rightarrow> error + 'st decorator" where
  "updateEffectDecorations transactions this =
     (case apply_transactions transactions (effectDecorations this, decorationCache this) of
        Inl err \<Rightarrow> Inl err
      | Inr (decorations, cache') \<Rightarrow>
          Inr (this\<lparr>effectDecorations := decorations, decorationCache := cache'\<rparr>))"

subsection \<open>The facade\<close>

text \<open>
  \<open>editor.dispatch({ effects })\<close>: the host builds a transaction that changes nothing in
  the document and hands it to the state field, whose \<open>update\<close> is
  \<open>updateEffectDecorations\<close> on that one transaction.
\<close>

definition dispatch :: "effect list \<Rightarrow> 'st decorator \<Rightarrow> error + 'st decorator" where
  "dispatch effs this =
     updateEffectDecorations
       [\<lparr>changes = \<lparr>changes_empty = True, changes_mapPos = (\<lambda>pos. pos)\<rparr>,
         effects = effs, state_doc = doc (editor this)\<rparr>] this"

definition addRemoveLineClass ::
  "int \<Rightarrow> string \<Rightarrow> bool \<Rightarrow> 'st decorator \<Rightarrow> error + 'st decorator" where
  "addRemoveLineClass lineNumber cls add this =
     (case doc_line (doc (editor this)) (lineNumber + 1) of
        Inl e \<Rightarrow> Inl e
      | Inr ln \<Rightarrow>
          (let eff = (if add then addLineDecorationEffect else removeLineDecorationEffect)
           in dispatch
                [eff \<lparr>range_from = line_from ln, range_to = line_to ln,
                      cssClass = cls, css_id = None\<rparr>] this))"

definition addLineClass ::
  "int \<Rightarrow> string \<Rightarrow> string \<Rightarrow> 'st decorator \<Rightarrow> error + 'st decorator" where
  "addLineClass lineNumber wh cls this = addRemoveLineClass lineNumber cls True this"

definition removeLineClass ::
  "int \<Rightarrow> string \<Rightarrow> string \<Rightarrow> 'st decorator \<Rightarrow> error + 'st decorator" where
  "removeLineClass lineNumber wh cls this = addRemoveLineClass lineNumber cls False this"

definition getLineClasses :: "int \<Rightarrow> 'st decorator \<Rightarrow> error + string list" where
  "getLineClasses lineNumber this =
     (case doc_line (doc (editor this)) (lineNumber + 1) of
        Inl e \<Rightarrow> Inl e
      | Inr ln \<Rightarrow>
          Inr (concat
                 (map (\<lambda>r. if range_from r = line_from ln \<and> range_to r = line_to ln
                            then (case spec_class (spec (range_value r)) of
                                    None \<Rightarrow> []
                                  | Some c \<Rightarrow> [c])
                            else [])
                      (between (line_from ln) (line_to ln) (effectDecorations this)))))"

record mark_text_options =
  mark_className :: "string option"

text \<open>
  \<open>markText\<close> returns an object whose \<open>clear\<close> closes over \<open>effectOptions\<close>; the handle is
  that record, and \<open>markText_clear\<close> is the \<open>clear\<close> of the handle.
\<close>

definition markText ::
  "int \<Rightarrow> int \<Rightarrow> mark_text_options option \<Rightarrow> 'st decorator
     \<Rightarrow> error + 'st decorator \<times> css_decoration_spec" where
  "markText from to opts this =
     (case opts of
        None \<Rightarrow> Inl TypeError
      | Some os \<Rightarrow>
          (let effectOptions =
                 \<lparr>range_from = from, range_to = to,
                  cssClass = (case mark_className os of None \<Rightarrow> [] | Some c \<Rightarrow> c),
                  css_id = Some (nextLineWidgetId this)\<rparr>;
               this' = this\<lparr>nextLineWidgetId := nextLineWidgetId this + 1\<rparr>
           in (case dispatch [addMarkDecorationEffect effectOptions] this' of
                 Inl e \<Rightarrow> Inl e
               | Inr this'' \<Rightarrow> Inr (this'', effectOptions))))"

definition markText_clear :: "css_decoration_spec \<Rightarrow> 'st decorator \<Rightarrow> error + 'st decorator" where
  "markText_clear effectOptions this = dispatch [removeMarkDecorationEffect effectOptions] this"

text \<open>
  \<open>interface LineWidgetControl\<close>: the node and the class name; \<open>clear\<close> and \<open>changed\<close> are
  the two functions below (\<open>changed\<close> asks the host to measure again and touches nothing
  here).
\<close>

record line_widget_control =
  node :: html_element
  control_className :: "string option"

definition createLineWidgetControl :: "html_element \<Rightarrow> line_widget_options \<Rightarrow> line_widget_control" where
  "createLineWidgetControl nd opts = \<lparr>node = nd, control_className = className opts\<rparr>"

definition lineWidget_clear :: "line_widget_control \<Rightarrow> 'st decorator \<Rightarrow> error + 'st decorator" where
  "lineWidget_clear control this = dispatch [removeLineWidgetEffect (node control)] this"

definition lineWidget_changed :: "line_widget_control \<Rightarrow> 'st decorator \<Rightarrow> error + 'st decorator" where
  "lineWidget_changed control this = Inr this"

definition getLineWidgets :: "int \<Rightarrow> 'st decorator \<Rightarrow> error + line_widget_control list" where
  "getLineWidgets lineNumber this =
     (case doc_line (doc (editor this)) (lineNumber + 1) of
        Inl e \<Rightarrow> Inl e
      | Inr ln \<Rightarrow>
          Inr (concat
                 (map (\<lambda>r. if range_from r \<ge> line_from ln \<and> range_from r \<le> line_to ln
                               \<and> range_from r = range_to r
                            then (case spec_widget (spec (range_value r)) of
                                    None \<Rightarrow> []
                                  | Some w \<Rightarrow>
                                      [createLineWidgetControl (wrapper_element w) (wrapper_options w)])
                            else [])
                      (between (line_from ln) (line_to ln) (effectDecorations this)))))"

definition addLineWidget ::
  "int \<Rightarrow> html_element \<Rightarrow> line_widget_options \<Rightarrow> 'st decorator
     \<Rightarrow> error + 'st decorator \<times> line_widget_control" where
  "addLineWidget lineNumber nd opts this =
     (case doc_line (doc (editor this)) (lineNumber + 1) of
        Inl e \<Rightarrow> Inl e
      | Inr ln \<Rightarrow>
          (let lineWidgetOptions =
                 \<lparr>range_from = line_from ln, range_to = line_to ln,
                  element = nd, options = opts\<rparr>
           in (case dispatch [addLineWidgetEffect lineWidgetOptions] this of
                 Inl e \<Rightarrow> Inl e
               | Inr this' \<Rightarrow> Inr (this', createLineWidgetControl nd opts))))"

subsection \<open>The overlay engine\<close>

text \<open>
  A recompute either raises, or returns, or does not end: its result is an
  \<open>(error + 'a) option\<close>, and \<open>bind_r\<close> sequences two such steps.
\<close>

definition bind_r :: "(error + 'a) option \<Rightarrow> ('a \<Rightarrow> (error + 'b) option) \<Rightarrow> (error + 'b) option" where
  "bind_r m f = (case m of None \<Rightarrow> None | Some (Inl e) \<Rightarrow> Some (Inl e) | Some (Inr x) \<Rightarrow> f x)"

text \<open>\<open>new StringStream(text, tabSize, indentUnit)\<close> and \<open>reader.eol()\<close>.\<close>

definition new_StringStream :: "string \<Rightarrow> int \<Rightarrow> int \<Rightarrow> string_stream" where
  "new_StringStream txt ts iu =
     \<lparr>stream_string = txt, stream_pos = 0, stream_tabSize = ts, stream_indentUnit = iu\<rparr>"

definition eol :: "string_stream \<Rightarrow> bool" where
  "eol reader = (stream_pos reader \<ge> int (length (stream_string reader)))"

text \<open>\<open>token.split(/\s+/)\<close>, on the ASCII white space characters.\<close>

definition is_space :: "char \<Rightarrow> bool" where
  "is_space c = (c \<in> {CHR '' '', CHR 0x09, CHR 0x0A, CHR 0x0B, CHR 0x0C, CHR 0x0D})"

function split_space :: "string \<Rightarrow> string list" where
  "split_space [] = [[]]"
| "split_space (c # cs) =
     (if is_space c then [] # split_space (dropWhile is_space cs)
      else (case split_space cs of
              [] \<Rightarrow> [[c]]
            | w # ws \<Rightarrow> (c # w) # ws))"
  by pat_completeness auto
termination
  by (relation "measure length") (auto simp: le_imp_less_Suc length_dropWhile_le)

definition makeDecoration ::
  "string \<Rightarrow> int \<Rightarrow> int \<Rightarrow> (string \<rightharpoonup> decoration)
     \<Rightarrow> error + decoration_in_range \<times> (string \<rightharpoonup> decoration)" where
  "makeDecoration tokenName start stop cache =
     (let isLineDecoration = prefix ''line-'' tokenName;
          tokenName' = ''cm-'' @ tokenName;
          (decoration, cache') = classNameToCssDecoration tokenName' isLineDecoration None cache
      in (case range_at decoration start stop of
            Inl e \<Rightarrow> Inl e
          | Inr r \<Rightarrow> Inr (r, cache')))"

text \<open>The loop over the class names of one token.\<close>

fun push_classes ::
  "line \<Rightarrow> int \<Rightarrow> int \<Rightarrow> string list \<Rightarrow> decoration_in_range list \<times> (string \<rightharpoonup> decoration)
     \<Rightarrow> error + decoration_in_range list \<times> (string \<rightharpoonup> decoration)" where
  "push_classes ln lastPos pos [] acc = Inr acc"
| "push_classes ln lastPos pos (cls # rest) (newDecorations, cache) =
     (if prefix ''line-'' cls
      then (case makeDecoration cls (line_from ln) (line_from ln) cache of
              Inl e \<Rightarrow> Inl e
            | Inr (r, cache') \<Rightarrow>
                push_classes ln lastPos pos rest (newDecorations @ [r], cache'))
      else (let from = lastPos + line_from ln;
                to = pos + line_from ln
            in (case makeDecoration cls from to cache of
                  Inl e \<Rightarrow> Inl e
                | Inr (r, cache') \<Rightarrow>
                    push_classes ln lastPos pos rest (newDecorations @ [r], cache'))))"

text \<open>The \<open>if (token)\<close> block of the loop body: \<open>null\<close> and the empty string are falsy.\<close>

definition push_token ::
  "line \<Rightarrow> int \<Rightarrow> int \<Rightarrow> string option \<Rightarrow> decoration_in_range list \<times> (string \<rightharpoonup> decoration)
     \<Rightarrow> error + decoration_in_range list \<times> (string \<rightharpoonup> decoration)" where
  "push_token ln lastPos pos tok acc =
     (case tok of
        None \<Rightarrow> Inr acc
      | Some t \<Rightarrow>
          if t = [] then Inr acc
          else push_classes ln lastPos pos (split_space t) acc)"

definition no_advance_message :: string where
  "no_advance_message =
     ''Mark decoration position did not increase -- overlays must advance with each call to .token()''"

text \<open>
  The \<open>while (!reader.eol())\<close> loop over one line. The token function decides where the
  stream stands after a call, so the loop need not end.
\<close>

partial_function (option) scan_tokens ::
  "'st stream_parser \<Rightarrow> line \<Rightarrow> string_stream \<Rightarrow> int \<Rightarrow> 'st option
     \<Rightarrow> decoration_in_range list \<times> (string \<rightharpoonup> decoration)
     \<Rightarrow> (error + 'st option \<times> decoration_in_range list \<times> (string \<rightharpoonup> decoration)) option" where
  "scan_tokens overlay ln reader lastPos st acc =
     (if eol reader then Some (Inr (st, acc))
      else (case token overlay reader st of
              (tok, reader', st') \<Rightarrow>
                (case push_token ln lastPos (stream_pos reader') tok acc of
                   Inl e \<Rightarrow> Some (Inl e)
                 | Inr acc' \<Rightarrow>
                     if stream_pos reader' = lastPos
                     then Some (Inl (GenericError no_advance_message))
                     else scan_tokens overlay ln reader' (stream_pos reader') st' acc')))"

declare scan_tokens.simps [code]

text \<open>The loop over the line numbers of one visible range.\<close>

fun scan_lines ::
  "editor_view \<Rightarrow> 'st stream_parser \<Rightarrow> int list
     \<Rightarrow> 'st option \<times> decoration_in_range list \<times> (string \<rightharpoonup> decoration)
     \<Rightarrow> (error + 'st option \<times> decoration_in_range list \<times> (string \<rightharpoonup> decoration)) option" where
  "scan_lines v overlay [] s = Some (Inr s)"
| "scan_lines v overlay (i # rest) (st, acc) =
     (case doc_line (doc v) i of
        Inl e \<Rightarrow> Some (Inl e)
      | Inr ln \<Rightarrow>
          (let reader = new_StringStream (line_text ln) (tabSize v) (int (length (indentUnit v)));
               lastPos = 0
           in bind_r (scan_tokens overlay ln reader lastPos st acc)
                (scan_lines v overlay rest)))"

text \<open>The loop over the visible ranges.\<close>

fun scan_ranges ::
  "editor_view \<Rightarrow> 'st stream_parser \<Rightarrow> (int \<times> int) list
     \<Rightarrow> 'st option \<times> decoration_in_range list \<times> (string \<rightharpoonup> decoration)
     \<Rightarrow> (error + 'st option \<times> decoration_in_range list \<times> (string \<rightharpoonup> decoration)) option" where
  "scan_ranges v overlay [] s = Some (Inr s)"
| "scan_ranges v overlay ((from, to) # rest) s =
     (case doc_lineAt (doc v) from of
        Inl e \<Rightarrow> Some (Inl e)
      | Inr fromLine \<Rightarrow>
         (case doc_lineAt (doc v) to of
            Inl e \<Rightarrow> Some (Inl e)
          | Inr toLine \<Rightarrow>
             (let fromLineNumber = number fromLine;
                  toLineNumber = number toLine
              in bind_r (scan_lines v overlay [fromLineNumber..toLineNumber] s)
                   (scan_ranges v overlay rest))))"

text \<open>The loop over the overlays; each starts from its own fresh state.\<close>

fun scan_overlays ::
  "editor_view \<Rightarrow> 'st stream_parser list
     \<Rightarrow> decoration_in_range list \<times> (string \<rightharpoonup> decoration)
     \<Rightarrow> (error + decoration_in_range list \<times> (string \<rightharpoonup> decoration)) option" where
  "scan_overlays v [] acc = Some (Inr acc)"
| "scan_overlays v (overlay # rest) acc =
     (let indentSize = int (length (indentUnit v));
          st = (case startState overlay of None \<Rightarrow> None | Some f \<Rightarrow> Some (f indentSize))
      in bind_r (scan_ranges v overlay (visibleRanges v) (st, acc))
           (\<lambda>(st', acc'). scan_overlays v rest acc'))"

definition createOverlayDecorations ::
  "editor_view \<Rightarrow> 'st decorator \<Rightarrow> (error + decoration_set \<times> 'st decorator) option" where
  "createOverlayDecorations v this =
     bind_r (scan_overlays v (overlays this) ([], decorationCache this))
       (\<lambda>(newDecorations, cache').
          Some (Inr (sort_key (\<lambda>r. (range_from r, range_to r)) newDecorations,
                     this\<lparr>decorationCache := cache'\<rparr>)))"

subsection \<open>The view plugin\<close>

record view_plugin =
  decorations :: decoration_set

record view_update =
  viewportChanged :: bool
  docChanged :: bool
  transactions :: "transaction list"
  view :: editor_view

text \<open>
  \<open>update\<close> of the plugin class. The recompute that \<open>doUpdate\<close> runs is a parameter, so
  that the calls of it can be counted; \<open>plugin_update\<close> below is \<open>update\<close> with the
  recompute of the code, the assignment of \<open>createOverlayDecorations\<close> to
  \<open>this.decorations\<close>.
\<close>

definition doUpdate :: "('s \<Rightarrow> (error + 's) option) \<Rightarrow> 's \<Rightarrow> (error + 's) option" where
  "doUpdate recompute s =
     (let updated = False
      in if updated then Some (Inr s) else recompute s)"

fun is_refreshOverlaysEffect :: "effect \<Rightarrow> bool" where
  "is_refreshOverlaysEffect refreshOverlaysEffect = True"
| "is_refreshOverlaysEffect _ = False"

fun update_effects ::
  "('s \<Rightarrow> (error + 's) option) \<Rightarrow> effect list \<Rightarrow> 's \<Rightarrow> (error + 's) option" where
  "update_effects recompute [] s = Some (Inr s)"
| "update_effects recompute (e # es) s =
     (if is_refreshOverlaysEffect e then doUpdate recompute s
      else update_effects recompute es s)"

fun update_transactions ::
  "('s \<Rightarrow> (error + 's) option) \<Rightarrow> transaction list \<Rightarrow> 's \<Rightarrow> (error + 's) option" where
  "update_transactions recompute [] s = Some (Inr s)"
| "update_transactions recompute (tr # trs) s =
     bind_r (update_effects recompute (effects tr) s) (update_transactions recompute trs)"

definition update ::
  "('s \<Rightarrow> (error + 's) option) \<Rightarrow> view_update \<Rightarrow> 's \<Rightarrow> (error + 's) option" where
  "update recompute u s =
     (if viewportChanged u \<or> docChanged u then doUpdate recompute s
      else update_transactions recompute (transactions u) s)"

definition recompute_overlays ::
  "editor_view \<Rightarrow> view_plugin \<times> 'st decorator \<Rightarrow> (error + view_plugin \<times> 'st decorator) option" where
  "recompute_overlays v s =
     (case s of (plugin, this) \<Rightarrow>
        bind_r (createOverlayDecorations v this)
          (\<lambda>(ds, this'). Some (Inr (plugin\<lparr>decorations := ds\<rparr>, this'))))"

definition plugin_update ::
  "view_update \<Rightarrow> view_plugin \<times> 'st decorator \<Rightarrow> (error + view_plugin \<times> 'st decorator) option" where
  "plugin_update u s = update (recompute_overlays (view u)) u s"

text \<open>The plugin's constructor.\<close>

definition plugin_create ::
  "editor_view \<Rightarrow> 'st decorator \<Rightarrow> (error + view_plugin \<times> 'st decorator) option" where
  "plugin_create v this =
     bind_r (createOverlayDecorations v this)
       (\<lambda>(ds, this'). Some (Inr (\<lparr>decorations = ds\<rparr>, this')))"

subsection \<open>Sequencing of facade calls, predicates of the specification, fixtures\<close>

definition bind_e :: "error + 'a \<Rightarrow> ('a \<Rightarrow> error + 'b) \<Rightarrow> error + 'b" where
  "bind_e m f = (case m of Inl e \<Rightarrow> Inl e | Inr x \<Rightarrow> f x)"

text \<open>The decoration is a widget decoration that wraps the element.\<close>

definition wraps :: "decoration \<Rightarrow> html_element \<Rightarrow> bool" where
  "wraps dec el =
     (case spec_widget (spec dec) of None \<Rightarrow> False | Some w \<Rightarrow> wrapper_element w = el)"

text \<open>
  The remap rule in the words of the specification: the effect has a range, and over the
  change its two ends are the mapped ends, the smaller first.
\<close>

definition remapped_by_rule :: "change_desc \<Rightarrow> effect \<Rightarrow> bool" where
  "remapped_by_rule change e =
     (case (effect_range e, effect_range (effect_map change e)) of
        (Some (f, t), Some (f', t')) \<Rightarrow>
           f' = min (change f) (change t) \<and> t' = max (change f) (change t) \<and> f' \<le> t'
      | _ \<Rightarrow> False)"

text \<open>The document \<open>"abc\ndef"\<close> in an editor, and a decorator created on it.\<close>

definition scenario_view :: editor_view where
  "scenario_view =
     \<lparr>doc = ''abc\<newline>def'', visibleRanges = [(0, 7)], tabSize = 4, indentUnit = ''  ''\<rparr>"

definition scenario_decorator :: "unit decorator" where
  "scenario_decorator = create scenario_view"

definition hl_line :: decoration_in_range where
  "hl_line = plain_range (Decoration_line ''hl'' None) 0 0"

definition lined_decorator :: "unit decorator" where
  "lined_decorator = scenario_decorator\<lparr>effectDecorations := [hl_line]\<rparr>"

text \<open>The handle of a mark over offsets 1 to 5, the decorator that holds the mark, and the
  decorator after the handle's \<open>clear\<close>.\<close>

definition mark_handle :: css_decoration_spec where
  "mark_handle = \<lparr>range_from = 1, range_to = 5, cssClass = ''m'', css_id = Some 0\<rparr>"

definition marked_decorator :: "unit decorator" where
  "marked_decorator =
     lined_decorator\<lparr>nextLineWidgetId := 1,
        effectDecorations := [hl_line, plain_range (Decoration_mark ''m'' (Some 0)) 1 5],
        decorationCache := [''m'' \<mapsto> Decoration_mark ''m'' (Some 0)]\<rparr>"

definition cleared_decorator :: "unit decorator" where
  "cleared_decorator = marked_decorator\<lparr>effectDecorations := [hl_line]\<rparr>"

text \<open>Two line widgets, on elements 1 and 2, beside a line and a mark decoration.\<close>

definition no_options :: line_widget_options where
  "no_options = \<lparr>className = None, above = None\<rparr>"

definition widget_one :: decoration_in_range where
  "widget_one =
     plain_range (Decoration_widget \<lparr>wrapper_element = 1, wrapper_options = no_options\<rparr> 1 True) 3 3"

definition widget_two :: decoration_in_range where
  "widget_two =
     plain_range (Decoration_widget \<lparr>wrapper_element = 2, wrapper_options = no_options\<rparr> 1 True) 7 7"

definition widget_fixture :: decoration_set where
  "widget_fixture =
     [hl_line, plain_range (Decoration_mark ''m'' (Some 0)) 1 5, widget_one, widget_two]"

definition widget_decorator :: "unit decorator" where
  "widget_decorator = scenario_decorator\<lparr>effectDecorations := widget_fixture\<rparr>"

text \<open>A transaction that carries one refresh signal and changes nothing.\<close>

definition refresh_transaction :: transaction where
  "refresh_transaction =
     \<lparr>changes = \<lparr>changes_empty = True, changes_mapPos = (\<lambda>pos. pos)\<rparr>,
      effects = [refreshOverlaysEffect], state_doc = ''abc\<newline>def''\<rparr>"

lemmas eval_defs =
  bind_e_def scenario_view_def scenario_decorator_def create_def addLineClass_def
  removeLineClass_def addRemoveLineClass_def getLineClasses_def dispatch_def
  updateEffectDecorations_def doc_line_def doc_lineAt_def doc_lines_def doc_length_def
  classNameToCssDecoration_def update_add_def update_filter_def between_def map_set_def
  plain_range_def range_at_def startSide_def endSide_def widget_side_def
  decoration_eq_def Decoration_line_def Decoration_mark_def
  Decoration_widget_def Decoration_none_def Let_def lined_decorator_def hl_line_def
  markText_def markText_clear_def lineWidget_clear_def

text \<open>
  The state of the \<open>while\<close> loop of \<open>scan_tokens\<close> after \<open>k\<close> calls of \<open>token\<close> that all
  moved the stream: the reader, \<open>lastPos\<close>, the overlay's state and the accumulated
  decorations with the cache. \<open>None\<close> when the loop has ended or raised before.
\<close>

fun scan_after ::
  "nat \<Rightarrow> 'st stream_parser \<Rightarrow> line
     \<Rightarrow> string_stream \<times> int \<times> 'st option \<times> decoration_in_range list \<times> (string \<rightharpoonup> decoration)
     \<Rightarrow> (string_stream \<times> int \<times> 'st option \<times> decoration_in_range list \<times> (string \<rightharpoonup> decoration)) option" where
  "scan_after 0 overlay ln s = Some s"
| "scan_after (Suc k) overlay ln (reader, lastPos, st, acc) =
     (if eol reader then None
      else (case token overlay reader st of
              (tok, reader', st') \<Rightarrow>
                (case push_token ln lastPos (stream_pos reader') tok acc of
                   Inl e \<Rightarrow> None
                 | Inr acc' \<Rightarrow>
                     if stream_pos reader' = lastPos then None
                     else scan_after k overlay ln (reader', stream_pos reader', st', acc'))))"

text \<open>
  The overlay of the scenario: its token function returns \<open>'line-error'\<close> for the first
  character of a line and \<open>null\<close> for every other character, and moves one character on.
\<close>

definition line_error_overlay :: "'st stream_parser" where
  "line_error_overlay =
     \<lparr>startState = None,
      token = (\<lambda>reader st.
                 (if stream_pos reader = 0 then Some ''line-error'' else None,
                  reader\<lparr>stream_pos := stream_pos reader + 1\<rparr>, st))\<rparr>"

definition cm_line_error :: decoration where
  "cm_line_error = Decoration_line ''cm-line-error'' None"

text \<open>A document of three lines, and an editor that shows all of a document.\<close>

definition three_lines :: "string \<Rightarrow> string \<Rightarrow> string \<Rightarrow> document" where
  "three_lines la lb lc = la @ CHR 0x0A # lb @ CHR 0x0A # lc"

definition full_view :: "document \<Rightarrow> int \<Rightarrow> string \<Rightarrow> editor_view" where
  "full_view d ts iu =
     \<lparr>doc = d, visibleRanges = [(0, doc_length d)], tabSize = ts, indentUnit = iu\<rparr>"

text \<open>
  An overlay whose token function returns \<open>null\<close> and puts the stream at offset 2 from the
  start of a line, back at offset 1 from offset 2, and at offset 3 from anywhere else; a
  decorator with this overlay alone; and the reader of the line \<open>abc\<close> at offset 2.
\<close>

definition backward_overlay :: "'st stream_parser" where
  "backward_overlay =
     \<lparr>startState = None,
      token = (\<lambda>reader st.
                 (None,
                  reader\<lparr>stream_pos :=
                     (if stream_pos reader = 0 then 2
                      else if stream_pos reader = 2 then 1 else 3)\<rparr>, st))\<rparr>"

definition backward_decorator :: "unit decorator" where
  "backward_decorator = (create scenario_view)\<lparr>overlays := [backward_overlay]\<rparr>"

definition abc_line :: line where
  "abc_line = \<lparr>line_from = 0, line_to = 3, number = 1, line_text = ''abc''\<rparr>"

definition abc_reader :: "int \<Rightarrow> string_stream" where
  "abc_reader pos =
     \<lparr>stream_string = ''abc'', stream_pos = pos, stream_tabSize = 4, stream_indentUnit = 2\<rparr>"

lemmas overlay_eval =
  scenario_view_def backward_decorator_def create_def line_error_overlay_def
  backward_overlay_def cm_line_error_def abc_line_def abc_reader_def
  doc_lineAt_def doc_line_def doc_lines_def doc_length_def scan_tokens.simps eol_def
  new_StringStream_def Let_def makeDecoration_def classNameToCssDecoration_def
  plain_range_def range_at_def push_token_def Decoration_line_def is_space_def upto.simps
  createOverlayDecorations_def Decoration_none_def

section \<open>Properties\<close>

subsection \<open>The document\<close>

lemma split_lines_nonempty: "split_lines d \<noteq> []"
  by (induction d) (auto split: list.splits)

lemma split_lines_length:
  "(\<Sum>l\<leftarrow>split_lines d. int (length l)) + int (length (split_lines d)) = int (length d) + 1"
  by (induction d) (auto split: list.splits)

lemma mk_lines_nonempty: "ls \<noteq> [] \<Longrightarrow> mk_lines off n ls \<noteq> []"
  by (cases ls) auto

lemma mk_lines_last:
  "ls \<noteq> [] \<Longrightarrow>
   line_to (last (mk_lines off n ls)) = off + (\<Sum>l\<leftarrow>ls. int (length l)) + int (length ls) - 1"
proof (induction ls arbitrary: off n)
  case Nil
  then show ?case by simp
next
  case (Cons t ts)
  show ?case
  proof (cases ts)
    case Nil
    then show ?thesis by simp
  next
    case (Cons u us)
    then have "ts \<noteq> []" by simp
    from Cons.IH [OF this, of "off + int (length t) + 1" "n + 1"] \<open>ts \<noteq> []\<close>
    show ?thesis by (simp add: mk_lines_nonempty)
  qed
qed

lemma doc_lines_last: "line_to (last (doc_lines d)) = doc_length d"
  using mk_lines_last [OF split_lines_nonempty, of 0 1 d] split_lines_length [of d]
  by (simp add: doc_lines_def doc_length_def)

lemma doc_lines_nonempty: "doc_lines d \<noteq> []"
  by (simp add: doc_lines_def mk_lines_nonempty split_lines_nonempty)

text \<open>Inside the document \<open>doc.lineAt\<close> does not raise.\<close>

lemma doc_lineAt_ok:
  assumes "0 \<le> pos" "pos \<le> doc_length d"
  shows "\<exists>ln. doc_lineAt d pos = Inr ln"
proof -
  have "last (doc_lines d) \<in> set (doc_lines d)"
    using doc_lines_nonempty by simp
  moreover have "pos \<le> line_to (last (doc_lines d))"
    using assms doc_lines_last by simp
  ultimately have "find (\<lambda>l. pos \<le> line_to l) (doc_lines d) \<noteq> None"
    by (auto simp: find_None_iff)
  then show ?thesis
    using assms by (auto simp: doc_lineAt_def)
qed

subsection \<open>The reducer, one effect at a time\<close>

lemma set_update_add [simp]: "set (update_add r ds) = insert r (set ds)"
  by (simp add: update_add_def set_insort_key)

lemma map_set_empty [simp]: "changes_empty chs \<Longrightarrow> map_set chs ds = ds"
  by (simp add: map_set_def)

lemma range_at_mark:
  "range_at (Decoration_mark c i) from to =
     (if from \<ge> to then Inl RangeError else Inr (plain_range (Decoration_mark c i) from to))"
  by (simp add: range_at_def Decoration_mark_def)

lemma range_at_line:
  "range_at (Decoration_line c i) from from = Inr (plain_range (Decoration_line c i) from from)"
  by (simp add: range_at_def Decoration_line_def)

lemma dispatch_single:
  "dispatch [e] this =
     (case apply_effect (doc (editor this)) e (effectDecorations this, decorationCache this) of
        Inl err \<Rightarrow> Inl err
      | Inr (ds, c) \<Rightarrow> Inr (this\<lparr>effectDecorations := ds, decorationCache := c\<rparr>))"
  by (simp add: dispatch_def updateEffectDecorations_def split: sum.splits)

lemma dispatch_single_Inr:
  assumes "dispatch [e] this = Inr this'"
  shows "apply_effect (doc (editor this)) e (effectDecorations this, decorationCache this)
           = Inr (effectDecorations this', decorationCache this') \<and> editor this' = editor this"
  using assms by (auto simp: dispatch_single split: sum.splits)

lemma classNameToCssDecoration_with_id:
  "classNameToCssDecoration cls b (Some i) cache =
     ((if b then Decoration_line cls (Some i) else Decoration_mark cls (Some i)),
      cache(cls \<mapsto> (if b then Decoration_line cls (Some i) else Decoration_mark cls (Some i))))"
  by (simp add: classNameToCssDecoration_def Let_def split: option.splits)

lemma classNameToCssDecoration_again:
  "classNameToCssDecoration cls b None (snd (classNameToCssDecoration cls b None cache))
     = classNameToCssDecoration cls b None cache"
  by (simp add: classNameToCssDecoration_def Let_def split: option.splits)

lemma removeLineWidget_filter:
  "update_filter (\<lambda>from to val. map_option wrapper_element (spec_widget (spec val)) \<noteq> Some el) ds
     = filter (\<lambda>r. \<not> wraps (range_value r) el) ds"
  unfolding update_filter_def
  by (rule filter_cong) (auto simp: wraps_def split: option.splits)

lemma apply_removeLineWidget:
  "apply_effect d (removeLineWidgetEffect el) (ds, cache)
     = Inr (filter (\<lambda>r. \<not> wraps (range_value r) el) ds, cache)"
  by (simp only: apply_effect.simps removeLineWidget_filter)

text \<open>What the filter of a remove effect without identity keeps.\<close>

lemma remove_without_id_result:
  assumes "css_id v = None"
    and "doc_lineAt d (range_from v) = Inr l1"
    and "doc_lineAt d (range_to v) = Inr l2"
  shows "apply_effect d (removeLineDecorationEffect v) (ds, cache) =
     Inr (filter (\<lambda>r. line_from l1 \<le> range_from r \<and> range_to r \<le> line_to l2 \<and>
                      decoration_eq (range_value r)
                        (fst (classNameToCssDecoration (cssClass v) True None cache))) ds,
          snd (classNameToCssDecoration (cssClass v) True None cache))"
  using assms by (simp add: update_filter_def Let_def split: prod.splits)

lemma apply_removeMark_again:
  assumes "apply_effect d (removeMarkDecorationEffect v) (ds, cache) = Inr (ds', cache')"
  shows "apply_effect d (removeMarkDecorationEffect v) (ds', cache') = Inr (ds', cache')"
proof -
  obtain l1 where l1: "doc_lineAt d (range_from v) = Inr l1"
    using assms by (cases "doc_lineAt d (range_from v)") auto
  obtain l2 where l2: "doc_lineAt d (range_to v) = Inr l2"
    using assms l1 by (cases "doc_lineAt d (range_to v)") auto
  obtain t c where tc: "classNameToCssDecoration (cssClass v) False None cache = (t, c)"
    by (cases "classNameToCssDecoration (cssClass v) False None cache")
  have c: "cache' = c" using assms l1 l2 tc by (simp add: Let_def)
  have again: "classNameToCssDecoration (cssClass v) False None c = (t, c)"
    using classNameToCssDecoration_again [of "cssClass v" False cache] tc by simp
  define P :: "decoration_in_range \<Rightarrow> bool" where
    "P = (\<lambda>r. if css_id v \<noteq> None then spec_id (spec (range_value r)) \<noteq> css_id v
           else (let isInRange = (range_from r \<ge> line_from l1 \<and> range_to r \<le> line_to l2)
                 in isInRange \<and> decoration_eq (range_value r) t))"
  have ds': "ds' = filter P ds"
    using assms l1 l2 tc by (simp add: Let_def update_filter_def P_def)
  have "apply_effect d (removeMarkDecorationEffect v) (ds', c) = Inr (filter P ds', c)"
    using l1 l2 again by (simp add: Let_def update_filter_def P_def)
  moreover have "filter P ds' = ds'"
    by (simp add: ds')
  ultimately show ?thesis
    using c by simp
qed

lemma apply_removeMark_gone:
  assumes "apply_effect d (removeMarkDecorationEffect v) (ds, cache) = Inr (ds', cache')"
    and "css_id v \<noteq> None"
  shows "\<forall>r \<in> set ds'. spec_id (spec (range_value r)) \<noteq> css_id v"
  using assms
  by (auto simp: Let_def update_filter_def split: sum.splits prod.splits)

subsection \<open>The facade\<close>

lemma markText_empty:
  "to \<le> from \<Longrightarrow> markText from to (Some \<lparr>mark_className = Some c\<rparr>) this = Inl RangeError"
  by (simp add: markText_def dispatch_single classNameToCssDecoration_with_id Let_def
      range_at_mark)

lemma markText_result:
  "from < to \<Longrightarrow>
   markText from to (Some \<lparr>mark_className = Some c\<rparr>) this =
     Inr (this\<lparr>nextLineWidgetId := nextLineWidgetId this + 1,
              effectDecorations :=
                 update_add (plain_range (Decoration_mark c (Some (nextLineWidgetId this))) from to)
                    (effectDecorations this),
              decorationCache :=
                 (decorationCache this)(c \<mapsto> Decoration_mark c (Some (nextLineWidgetId this)))\<rparr>,
          \<lparr>range_from = from, range_to = to, cssClass = c,
           css_id = Some (nextLineWidgetId this)\<rparr>)"
  by (simp add: markText_def dispatch_single classNameToCssDecoration_with_id Let_def
      range_at_mark)

lemma markText_clear_with_id:
  assumes "css_id h = Some i"
    and "doc_lineAt (doc (editor this)) (range_from h) = Inr l1"
    and "doc_lineAt (doc (editor this)) (range_to h) = Inr l2"
  shows "markText_clear h this =
     Inr (this\<lparr>effectDecorations :=
                 filter (\<lambda>r. spec_id (spec (range_value r)) \<noteq> Some i) (effectDecorations this),
              decorationCache :=
                 snd (classNameToCssDecoration (cssClass h) False None (decorationCache this))\<rparr>)"
  using assms
  by (simp add: markText_clear_def dispatch_single update_filter_def Let_def split: prod.splits)

lemma lineWidget_clear_result:
  "lineWidget_clear w this =
     Inr (this\<lparr>effectDecorations :=
                 filter (\<lambda>r. \<not> wraps (range_value r) (node w)) (effectDecorations this)\<rparr>)"
  by (simp add: lineWidget_clear_def dispatch_single apply_removeLineWidget del: apply_effect.simps)

text \<open>
  No factory call of the code gives a decoration a \<open>class\<close> property, and the reducer keeps
  it so; \<open>getLineClasses\<close> then has no name to return.
\<close>

definition no_class :: "decoration_set \<times> (string \<rightharpoonup> decoration) \<Rightarrow> bool" where
  "no_class s =
     ((\<forall>r \<in> set (fst s). spec_class (spec (range_value r)) = None) \<and>
      (\<forall>d \<in> ran (snd s). spec_class (spec d) = None))"

lemma classNameToCssDecoration_no_class:
  assumes "\<forall>d \<in> ran cache. spec_class (spec d) = None"
  shows "spec_class (spec (fst (classNameToCssDecoration cls b i cache))) = None \<and>
         (\<forall>d \<in> ran (snd (classNameToCssDecoration cls b i cache)). spec_class (spec d) = None)"
proof -
  have fresh: "spec_class (spec (if b then Decoration_line cls i else Decoration_mark cls i)) = None"
    by (simp add: Decoration_line_def Decoration_mark_def)
  have upd: "\<forall>d \<in> ran (cache(cls \<mapsto> x)). spec_class (spec d) = None"
    if "spec_class (spec x) = None" for x
    using assms that by (auto simp: ran_def split: if_splits)
  show ?thesis
  proof (cases "cache cls")
    case None
    then show ?thesis
      using fresh upd by (simp add: classNameToCssDecoration_def Let_def)
  next
    case (Some cached)
    then have "spec_class (spec cached) = None"
      using assms by (auto simp: ran_def)
    then show ?thesis
      using Some fresh upd assms
      by (cases i)
        (simp_all add: classNameToCssDecoration_def Let_def Decoration_line_def
          Decoration_mark_def)
  qed
qed

lemma range_at_value: "range_at d from to = Inr r \<Longrightarrow> range_value r = d"
  by (auto simp: range_at_def plain_range_def split: decoration_kind.splits if_splits)

lemma apply_effect_no_class:
  assumes "apply_effect d e s = Inr s'" and "no_class s"
  shows "no_class s'"
proof -
  obtain ds cache where s: "s = (ds, cache)" by (cases s)
  from assms(2) have c: "\<forall>x \<in> ran cache. spec_class (spec x) = None"
    and r: "\<forall>x \<in> set ds. spec_class (spec (range_value x)) = None"
    by (simp_all add: no_class_def s)
  note k = classNameToCssDecoration_no_class [OF c]
  show ?thesis
  proof (cases e)
    case (addLineDecorationEffect v)
    with assms(1) k [of "cssClass v" True "css_id v"] r show ?thesis
      by (auto simp: s no_class_def Let_def split: prod.splits sum.splits dest!: range_at_value)
  next
    case (addMarkDecorationEffect v)
    with assms(1) k [of "cssClass v" False "css_id v"] r show ?thesis
      by (auto simp: s no_class_def Let_def split: prod.splits sum.splits dest!: range_at_value)
  next
    case (removeLineDecorationEffect v)
    with assms(1) k [of "cssClass v" True None] r show ?thesis
      by (auto simp: s no_class_def Let_def update_filter_def split: prod.splits sum.splits)
  next
    case (removeMarkDecorationEffect v)
    with assms(1) k [of "cssClass v" False None] r show ?thesis
      by (auto simp: s no_class_def Let_def update_filter_def split: prod.splits sum.splits)
  next
    case refreshOverlaysEffect
    with assms show ?thesis by (simp add: s)
  next
    case (addLineWidgetEffect v)
    with assms(1) c r show ?thesis
      by (auto simp: s no_class_def Let_def Decoration_widget_def split: sum.splits
          dest!: range_at_value)
  next
    case (removeLineWidgetEffect el)
    with assms(1) c r show ?thesis
      by (auto simp: s no_class_def update_filter_def)
  qed
qed

lemma apply_effects_no_class:
  "apply_effects d es s = Inr s' \<Longrightarrow> no_class s \<Longrightarrow> no_class s'"
proof (induction es arbitrary: s)
  case Nil
  then show ?case by simp
next
  case (Cons e es)
  then show ?case
    by (auto split: sum.splits dest: apply_effect_no_class)
qed

lemma map_set_no_class:
  assumes "\<forall>r \<in> set ds. spec_class (spec (range_value r)) = None"
  shows "\<forall>r \<in> set (map_set chs ds). spec_class (spec (range_value r)) = None"
  using assms
  by (auto simp: map_set_def map_range_def Let_def split: if_splits)

lemma apply_transactions_no_class:
  "apply_transactions trs s = Inr s' \<Longrightarrow> no_class s \<Longrightarrow> no_class s'"
proof (induction trs arbitrary: s)
  case Nil
  then show ?case by simp
next
  case (Cons tr trs)
  obtain ds cache where s: "s = (ds, cache)" by (cases s)
  from Cons.prems(2) have "no_class (map_set (changes tr) ds, cache)"
    using map_set_no_class [of ds "changes tr"] by (simp add: no_class_def s)
  with Cons.prems(1) Cons.IH show ?case
    by (auto simp: s split: sum.splits dest: apply_effects_no_class)
qed

text \<open>
  On every decorator that transactions have brought from a new one, \<open>getLineClasses\<close>
  returns no name.
\<close>

lemma getLineClasses_no_class:
  assumes "\<forall>r \<in> set (effectDecorations this). spec_class (spec (range_value r)) = None"
    and "getLineClasses n this = Inr names"
  shows "names = []"
  using assms
  by (auto simp: getLineClasses_def between_def split: sum.splits)

lemma getLineClasses_after_transactions:
  assumes "updateEffectDecorations trs (create v) = Inr this"
    and "getLineClasses n this = Inr names"
  shows "names = []"
proof -
  have "no_class (effectDecorations (create v :: 'a decorator), decorationCache (create v :: 'a decorator))"
    by (simp add: no_class_def create_def Decoration_none_def)
  with assms(1) have "no_class (effectDecorations this, decorationCache this)"
    by (auto simp: updateEffectDecorations_def split: sum.splits prod.splits
        dest: apply_transactions_no_class)
  then show ?thesis
    using assms(2) getLineClasses_no_class by (auto simp: no_class_def)
qed

subsection \<open>The overlay engine\<close>

lemma bind_r_assoc: "bind_r (bind_r m f) g = bind_r m (\<lambda>x. bind_r (f x) g)"
  by (simp add: bind_r_def split: option.splits sum.splits)

lemma bind_r_simps [simp]:
  "bind_r None f = None"
  "bind_r (Some (Inl e)) f = Some (Inl e)"
  "bind_r (Some (Inr x)) f = f x"
  by (simp_all add: bind_r_def)

lemma scan_tokens_no_advance:
  assumes "\<not> eol reader" and "token overlay reader st = (tok, reader', st')"
    and "stream_pos reader' = lastPos"
  shows "scan_tokens overlay ln reader lastPos st acc =
           Some (Inl (case push_token ln lastPos lastPos tok acc of
                        Inl e \<Rightarrow> e
                      | Inr acc' \<Rightarrow> GenericError no_advance_message))"
  using assms by (subst scan_tokens.simps) (simp split: sum.splits)

lemma scan_after_tokens:
  "scan_after k overlay ln (reader, lastPos, st, acc) = Some (reader2, lastPos2, st2, acc2) \<Longrightarrow>
   scan_tokens overlay ln reader lastPos st acc = scan_tokens overlay ln reader2 lastPos2 st2 acc2"
proof (induction k arbitrary: reader lastPos st acc)
  case 0
  then show ?case by simp
next
  case (Suc k)
  from Suc.prems have ne: "\<not> eol reader"
    by (auto split: if_splits)
  obtain tok reader' st' where tk: "token overlay reader st = (tok, reader', st')"
    by (cases "token overlay reader st")
  from Suc.prems ne tk obtain acc' where
    push: "push_token ln lastPos (stream_pos reader') tok acc = Inr acc'"
    by (cases "push_token ln lastPos (stream_pos reader') tok acc") auto
  from Suc.prems ne tk push have adv: "stream_pos reader' \<noteq> lastPos"
    by (auto split: if_splits)
  from Suc.prems ne tk push adv
  have "scan_after k overlay ln (reader', stream_pos reader', st', acc')
          = Some (reader2, lastPos2, st2, acc2)"
    by simp
  then have "scan_tokens overlay ln reader' (stream_pos reader') st' acc'
          = scan_tokens overlay ln reader2 lastPos2 st2 acc2"
    by (rule Suc.IH)
  moreover have "scan_tokens overlay ln reader lastPos st acc
          = scan_tokens overlay ln reader' (stream_pos reader') st' acc'"
    using ne tk push adv by (subst scan_tokens.simps) simp
  ultimately show ?case by simp
qed

lemma scan_after_lastPos:
  "scan_after k overlay ln (reader, lastPos, st, acc) = Some (reader2, lastPos2, st2, acc2) \<Longrightarrow>
   lastPos = stream_pos reader \<Longrightarrow> lastPos2 = stream_pos reader2"
proof (induction k arbitrary: reader lastPos st acc)
  case 0
  then show ?case by auto
next
  case (Suc k)
  then show ?case
    by (auto split: if_splits prod.splits sum.splits)
qed

lemma scan_lines_append:
  "scan_lines v overlay (is1 @ is2) s = bind_r (scan_lines v overlay is1 s) (scan_lines v overlay is2)"
proof (induction is1 arbitrary: s)
  case Nil
  then show ?case by simp
next
  case (Cons i is1)
  obtain st acc where s: "s = (st, acc)" by (cases s)
  have rest: "scan_lines v overlay (is1 @ is2)
     = (\<lambda>x. bind_r (scan_lines v overlay is1 x) (scan_lines v overlay is2))"
    by (rule ext) (rule Cons.IH)
  show ?case
    unfolding s
    by (cases "doc_line (doc v) i") (simp_all add: Let_def bind_r_assoc rest)
qed

lemma scan_ranges_append:
  "scan_ranges v overlay (rs1 @ rs2) s = bind_r (scan_ranges v overlay rs1 s) (scan_ranges v overlay rs2)"
proof (induction rs1 arbitrary: s)
  case Nil
  then show ?case by simp
next
  case (Cons r rs1)
  obtain f t where r: "r = (f, t)" by (cases r)
  have rest: "scan_ranges v overlay (rs1 @ rs2)
     = (\<lambda>x. bind_r (scan_ranges v overlay rs1 x) (scan_ranges v overlay rs2))"
    by (rule ext) (rule Cons.IH)
  show ?case
    unfolding r
    by (cases "doc_lineAt (doc v) f"; cases "doc_lineAt (doc v) t")
      (simp_all add: Let_def bind_r_assoc rest)
qed

lemma scan_overlays_append:
  "scan_overlays v (os1 @ os2) acc = bind_r (scan_overlays v os1 acc) (scan_overlays v os2)"
proof (induction os1 arbitrary: acc)
  case Nil
  then show ?case by simp
next
  case (Cons ov os1)
  show ?case
    by (simp add: Let_def bind_r_assoc Cons.IH split_def)
qed

text \<open>
  A call of \<open>token\<close> that the recompute reaches (the overlays, visible ranges, lines and
  calls before it have all returned and moved the stream) and that leaves the stream at
  the position it had makes \<open>createOverlayDecorations\<close> raise: the error of the code, or the
  \<open>RangeError\<close> of the empty span of a class the call returned. The callers get the error
  and no decoration set.
\<close>

lemma unchanged_position_raises:
  assumes "overlays this = before @ overlay # after"
    and "scan_overlays v before ([], decorationCache this) = Some (Inr acc1)"
    and "visibleRanges v = rs1 @ (f, t) # rs2"
    and "scan_ranges v overlay rs1
           (case startState overlay of None \<Rightarrow> None
            | Some g \<Rightarrow> Some (g (int (length (indentUnit v)))), acc1) = Some (Inr s2)"
    and "doc_lineAt (doc v) f = Inr fromLine" and "doc_lineAt (doc v) t = Inr toLine"
    and "[number fromLine..number toLine] = is1 @ i # is2"
    and "scan_lines v overlay is1 s2 = Some (Inr (st3, acc3))"
    and "doc_line (doc v) i = Inr ln"
    and "scan_after k overlay ln
           (new_StringStream (line_text ln) (tabSize v) (int (length (indentUnit v))), 0, st3, acc3)
         = Some (reader, lastPos, st, acc)"
    and "\<not> eol reader"
    and "token overlay reader st = (tok, reader', st')"
    and "stream_pos reader' = stream_pos reader"
  shows "\<exists>e. createOverlayDecorations v this = Some (Inl e) \<and>
         plugin_create v this = Some (Inl e) \<and>
         plugin_update \<lparr>viewportChanged = vc, docChanged = True, transactions = trs, view = v\<rparr>
            (plugin, this) = Some (Inl e) \<and>
         plugin_update \<lparr>viewportChanged = False, docChanged = False,
                         transactions = [\<lparr>changes = chg, effects = [refreshOverlaysEffect],
                                          state_doc = doc v\<rparr>],
                         view = v\<rparr>
            (plugin, this) = Some (Inl e)"
proof -
  let ?fresh = "new_StringStream (line_text ln) (tabSize v) (int (length (indentUnit v)))"
  let ?st0 = "case startState overlay of None \<Rightarrow> None
              | Some g \<Rightarrow> Some (g (int (length (indentUnit v))))"
  have "lastPos = stream_pos reader"
    using scan_after_lastPos [OF assms(10)] by (simp add: new_StringStream_def)
  with assms(13) have "stream_pos reader' = lastPos"
    by simp
  from scan_tokens_no_advance [OF assms(11) assms(12) this]
  obtain e where "scan_tokens overlay ln reader lastPos st acc = Some (Inl e)"
    by blast
  with scan_after_tokens [OF assms(10)]
  have line: "scan_tokens overlay ln ?fresh 0 st3 acc3 = Some (Inl e)"
    by simp
  have "scan_lines v overlay (i # is2) (st3, acc3) = Some (Inl e)"
    using line assms(9) by (simp add: Let_def)
  then have lines: "scan_lines v overlay [number fromLine..number toLine] s2 = Some (Inl e)"
    using assms(7,8) by (simp add: scan_lines_append del: scan_lines.simps)
  have "scan_ranges v overlay ((f, t) # rs2) s2 = Some (Inl e)"
    using lines assms(5,6) by (simp add: Let_def)
  then have ranges: "scan_ranges v overlay (visibleRanges v) (?st0, acc1) = Some (Inl e)"
    using assms(3,4) by (simp add: scan_ranges_append del: scan_ranges.simps)
  have "scan_overlays v (overlay # after) acc1 = Some (Inl e)"
    using ranges by (simp add: Let_def)
  then have all: "scan_overlays v (overlays this) ([], decorationCache this) = Some (Inl e)"
    using assms(1,2) by (simp add: scan_overlays_append del: scan_overlays.simps)
  then have c: "createOverlayDecorations v this = Some (Inl e)"
    by (simp add: createOverlayDecorations_def)
  then show ?thesis
    by (simp add: plugin_create_def plugin_update_def update_def doUpdate_def recompute_overlays_def)
qed

lemma split_lines_single: "CHR 0x0A \<notin> set l \<Longrightarrow> split_lines l = [l]"
  by (induction l) auto

lemma split_lines_append:
  "CHR 0x0A \<notin> set l \<Longrightarrow> split_lines (l @ CHR 0x0A # rest) = l # split_lines rest"
  by (induction l) auto

lemma doc_lines_three:
  assumes "CHR 0x0A \<notin> set l1" "CHR 0x0A \<notin> set l2" "CHR 0x0A \<notin> set l3"
  shows "doc_lines (three_lines l1 l2 l3) =
     [\<lparr>line_from = 0, line_to = int (length l1), number = 1, line_text = l1\<rparr>,
      \<lparr>line_from = int (length l1) + 1, line_to = int (length l1) + 1 + int (length l2),
       number = 2, line_text = l2\<rparr>,
      \<lparr>line_from = int (length l1) + 1 + int (length l2) + 1,
       line_to = int (length l1) + 1 + int (length l2) + 1 + int (length l3),
       number = 3, line_text = l3\<rparr>]"
  using assms
  by (simp add: doc_lines_def three_lines_def split_lines_append split_lines_single)

lemma scan_rest:
  assumes "0 < stream_pos reader" "lastPos = stream_pos reader"
  shows "scan_tokens line_error_overlay ln reader lastPos st acc = Some (Inr (st, acc))"
  using assms
proof (induction "nat (int (length (stream_string reader)) - stream_pos reader)"
    arbitrary: reader lastPos)
  case 0
  then have "eol reader" by (simp add: eol_def)
  then show ?case by (subst scan_tokens.simps) simp
next
  case (Suc k)
  then have ne: "\<not> eol reader" by (simp add: eol_def)
  let ?reader' = "reader\<lparr>stream_pos := stream_pos reader + 1\<rparr>"
  have "scan_tokens line_error_overlay ln ?reader' (stream_pos ?reader') st acc
          = Some (Inr (st, acc))"
    by (rule Suc.hyps(1)) (use Suc in auto)
  then show ?case
    using ne Suc.prems
    by (subst scan_tokens.simps) (simp add: line_error_overlay_def push_token_def)
qed

lemma split_space_line_error: "split_space ''line-error'' = [''line-error'']"
  by (simp add: is_space_def)

lemma push_line_error:
  assumes "kind (fst (classNameToCssDecoration ''cm-line-error'' True None cache)) = LineDecoration"
  shows "push_token ln lastPos pos (Some ''line-error'') (acc, cache)
     = Inr (acc @ [plain_range (fst (classNameToCssDecoration ''cm-line-error'' True None cache))
                               (line_from ln) (line_from ln)],
            snd (classNameToCssDecoration ''cm-line-error'' True None cache))"
proof -
  obtain d c where dc: "classNameToCssDecoration ''cm-line-error'' True None cache = (d, c)"
    by (cases "classNameToCssDecoration ''cm-line-error'' True None cache")
  with assms have "kind d = LineDecoration"
    by simp
  then show ?thesis
    using dc
    by (simp add: push_token_def split_space_line_error makeDecoration_def range_at_def
        del: split_space.simps)
qed

lemma token_line_error:
  "token line_error_overlay reader st =
     (if stream_pos reader = 0 then Some ''line-error'' else None,
      reader\<lparr>stream_pos := stream_pos reader + 1\<rparr>, st)"
  by (simp add: line_error_overlay_def)

lemma scan_line_error:
  assumes "txt \<noteq> []"
    and "kind (fst (classNameToCssDecoration ''cm-line-error'' True None cache)) = LineDecoration"
  shows "scan_tokens line_error_overlay ln (new_StringStream txt ts iu) 0 st (acc, cache)
     = Some (Inr (st, acc @ [plain_range (fst (classNameToCssDecoration ''cm-line-error'' True None cache))
                               (line_from ln) (line_from ln)],
                   snd (classNameToCssDecoration ''cm-line-error'' True None cache)))"
proof -
  let ?reader = "new_StringStream txt ts iu"
  let ?reader' = "?reader\<lparr>stream_pos := stream_pos ?reader + 1\<rparr>"
  have ne: "\<not> eol ?reader" using assms by (simp add: eol_def new_StringStream_def)
  have p0: "stream_pos ?reader = 0" by (simp add: new_StringStream_def)
  have p1: "stream_pos ?reader' = 1" by (simp add: new_StringStream_def)
  have rest: "scan_tokens line_error_overlay ln ?reader' (stream_pos ?reader') st acc' = Some (Inr (st, acc'))" for acc'
    by (rule scan_rest) (simp_all add: p1)
  note push = push_line_error [OF assms(2)]
  have "scan_tokens line_error_overlay ln ?reader 0 st (acc, cache)
      = scan_tokens line_error_overlay ln ?reader' (stream_pos ?reader') st
          (acc @ [plain_range (fst (classNameToCssDecoration ''cm-line-error'' True None cache))
                               (line_from ln) (line_from ln)],
            snd (classNameToCssDecoration ''cm-line-error'' True None cache))"
    apply (subst scan_tokens.simps)
    apply (simp only: ne if_False token_line_error p0 if_True prod.case)
    apply (simp add: p1 push)
    done
  then show ?thesis
    by (simp only: rest)
qed

lemma doc_length_three:
  "doc_length (three_lines l1 l2 l3) = int (length l1) + int (length l2) + int (length l3) + 2"
  by (simp add: doc_length_def three_lines_def)

lemma sorted_overlay_decorations:
  assumes "createOverlayDecorations v this = Some (Inr (ds, this'))"
  shows "sorted (map (\<lambda>r. (range_from r, range_to r)) ds)"
  using assms
  by (auto simp: createOverlayDecorations_def bind_r_def split: option.splits sum.splits)

lemma classNameToCssDecoration_fresh:
  "cache cls = None \<Longrightarrow>
   classNameToCssDecoration cls True None cache = (Decoration_line cls None, cache(cls \<mapsto> Decoration_line cls None))"
  by (simp add: classNameToCssDecoration_def Let_def)

lemma classNameToCssDecoration_cached:
  "cache cls = Some d \<Longrightarrow> classNameToCssDecoration cls b None cache = (d, cache)"
  by (simp add: classNameToCssDecoration_def)

lemma startState_line_error: "startState line_error_overlay = None"
  by (simp add: line_error_overlay_def)

lemma three_lines_overlay:
  assumes "l1 \<noteq> []" "l2 \<noteq> []" "l3 \<noteq> []"
    and "CHR 0x0A \<notin> set l1" "CHR 0x0A \<notin> set l2" "CHR 0x0A \<notin> set l3"
  shows "createOverlayDecorations (full_view (three_lines l1 l2 l3) ts iu)
           ((create (full_view (three_lines l1 l2 l3) ts iu))\<lparr>overlays := [line_error_overlay]\<rparr>)
         = Some (Inr ([plain_range cm_line_error 0 0,
                       plain_range cm_line_error (int (length l1) + 1) (int (length l1) + 1),
                       plain_range cm_line_error (int (length l1) + int (length l2) + 2)
                          (int (length l1) + int (length l2) + 2)],
                      (create (full_view (three_lines l1 l2 l3) ts iu))
                        \<lparr>overlays := [line_error_overlay],
                         decorationCache := [''cm-line-error'' \<mapsto> cm_line_error]\<rparr>))"
proof -
  let ?d = "three_lines l1 l2 l3"
  let ?v = "full_view ?d ts iu"
  let ?n1 = "int (length l1)" and ?n2 = "int (length l2)" and ?n3 = "int (length l3)"
  let ?L1 = "\<lparr>line_from = 0, line_to = ?n1, number = 1, line_text = l1\<rparr>"
  let ?L2 = "\<lparr>line_from = ?n1 + 1, line_to = ?n1 + 1 + ?n2, number = 2, line_text = l2\<rparr>"
  let ?L3 = "\<lparr>line_from = ?n1 + 1 + ?n2 + 1, line_to = ?n1 + 1 + ?n2 + 1 + ?n3,
              number = 3, line_text = l3\<rparr>"
  let ?c = "[''cm-line-error'' \<mapsto> cm_line_error]"
  have lines: "doc_lines ?d = [?L1, ?L2, ?L3]"
    using assms by (simp add: doc_lines_three)
  have first: "doc_lineAt ?d 0 = Inr ?L1"
    by (simp add: doc_lineAt_def lines doc_length_three)
  have last: "doc_lineAt ?d (doc_length ?d) = Inr ?L3"
    using assms by (simp add: doc_lineAt_def lines doc_length_three)
  have l1: "doc_line ?d 1 = Inr ?L1" and l2: "doc_line ?d 2 = Inr ?L2"
    and l3: "doc_line ?d 3 = Inr ?L3"
    by (simp_all add: doc_line_def lines)
  have numbers: "[1..3] = [1, 2, 3::int]"
    by (simp add: upto_rec1)
  have scan: "scan_lines ?v line_error_overlay [1, 2, 3] (st, [], Map.empty)
      = Some (Inr (st, [plain_range cm_line_error 0 0,
                        plain_range cm_line_error (?n1 + 1) (?n1 + 1),
                        plain_range cm_line_error (?n1 + ?n2 + 2) (?n1 + ?n2 + 2)], ?c))"
    for st :: "'a option"
    using assms(1-3)
    by (simp add: full_view_def l1 l2 l3 scan_line_error classNameToCssDecoration_fresh
        classNameToCssDecoration_cached cm_line_error_def Decoration_line_def bind_r_def
        ac_simps)
  have ranges: "scan_ranges ?v line_error_overlay (visibleRanges ?v) (st, [], Map.empty)
      = Some (Inr (st, [plain_range cm_line_error 0 0,
                        plain_range cm_line_error (?n1 + 1) (?n1 + 1),
                        plain_range cm_line_error (?n1 + ?n2 + 2) (?n1 + ?n2 + 2)], ?c))"
    for st :: "'a option"
    using scan [of st] first last
    by (simp add: full_view_def numbers bind_r_def)
  have sorted: "sort_key (\<lambda>r. (range_from r, range_to r))
                  [plain_range cm_line_error 0 0,
                   plain_range cm_line_error (?n1 + 1) (?n1 + 1),
                   plain_range cm_line_error (?n1 + ?n2 + 2) (?n1 + ?n2 + 2)]
                = [plain_range cm_line_error 0 0,
                   plain_range cm_line_error (?n1 + 1) (?n1 + 1),
                   plain_range cm_line_error (?n1 + ?n2 + 2) (?n1 + ?n2 + 2)]"
    by (simp add: plain_range_def less_eq_prod_def)
  show ?thesis
    using ranges [of None] sorted
    by (simp add: createOverlayDecorations_def create_def bind_r_def startState_line_error
        del: scan_ranges.simps)
qed

section \<open>The claims\<close>

subsection \<open>C1: line classes on the document \<open>"abc\ndef"\<close>\<close>

text \<open>
  C1. The claim is that on the document \<open>"abc\ndef"\<close>, after \<open>addLineClass(0, '', 'hl')\<close>,
  \<open>getLineClasses(0)\<close> returns the class of the line. The add effect puts the class under
  \<open>attributes.class\<close> of the spec, on the zero-width range \<open>[0, 0]\<close>; \<open>getLineClasses\<close> reads
  the property \<open>class\<close> of the spec, which no decoration of the code has, and only of a
  decoration whose range is the whole line \<open>[0, 3]\<close>. So it returns the empty list while
  the canonical set holds the line class. After \<open>removeLineClass(0, '', 'hl')\<close> it returns
  the empty list too, with the line class still in the set.
\<close>

theorem getLineClasses_scenario_returns_nothing:
  "bind_e (addLineClass 0 [] ''hl'' scenario_decorator) (\<lambda>s. Inr (effectDecorations s))
     = Inr [plain_range (Decoration_line ''hl'' None) 0 0] \<and>
   spec_attributes_class (spec (Decoration_line ''hl'' None)) = Some ''hl'' \<and>
   spec_class (spec (Decoration_line ''hl'' None)) = None \<and>
   doc_line (doc (editor scenario_decorator)) (0 + 1)
     = Inr \<lparr>line_from = 0, line_to = 3, number = 1, line_text = ''abc''\<rparr> \<and>
   bind_e (addLineClass 0 [] ''hl'' scenario_decorator) (getLineClasses 0) = Inr [] \<and>
   bind_e (bind_e (addLineClass 0 [] ''hl'' scenario_decorator) (removeLineClass 0 [] ''hl''))
     (\<lambda>s. Inr (effectDecorations s))
     = Inr [plain_range (Decoration_line ''hl'' None) 0 0] \<and>
   bind_e (bind_e (addLineClass 0 [] ''hl'' scenario_decorator) (removeLineClass 0 [] ''hl''))
     (getLineClasses 0) = Inr []"
  by (simp add: eval_defs)

subsection \<open>C2: removal without an identity\<close>

text \<open>
  C2. The claim is that a remove effect without identity removes the decorations in the
  enclosing line range that equal the decoration of the class, and leaves every other one.
  The filter of the code returns true for exactly those decorations, and a filter keeps
  what it returns true for: with the line classes \<open>hl\<close> on line 0 and \<open>other\<close> on line 1,
  \<open>removeLineClass(0, '', 'hl')\<close> keeps \<open>hl\<close> and removes \<open>other\<close>.
\<close>

theorem remove_without_id_keeps_matches:
  "bind_e (bind_e (addLineClass 0 [] ''hl'' scenario_decorator) (addLineClass 1 [] ''other''))
     (\<lambda>s. Inr (effectDecorations s))
     = Inr [plain_range (Decoration_line ''hl'' None) 0 0,
            plain_range (Decoration_line ''other'' None) 4 4] \<and>
   bind_e (bind_e (bind_e (addLineClass 0 [] ''hl'' scenario_decorator)
                     (addLineClass 1 [] ''other''))
             (removeLineClass 0 [] ''hl''))
     (\<lambda>s. Inr (effectDecorations s))
     = Inr [plain_range (Decoration_line ''hl'' None) 0 0]"
  by (simp add: eval_defs)

subsection \<open>C3: one recompute for each update\<close>

text \<open>
  C3. The claim is that one update recomputes the overlay decorations at most once. The
  flag \<open>updated\<close> that \<open>doUpdate\<close> tests is a constant \<open>false\<close>, and the \<open>break\<close> leaves only
  the loop over the effects of one transaction: an update with two transactions that each
  carry a refresh signal runs the recompute twice. The recompute here counts its calls.
\<close>

theorem update_recomputes_twice:
  "update (\<lambda>n::nat. Some (Inr (Suc n)))
     \<lparr>viewportChanged = False, docChanged = False,
      transactions = [refresh_transaction, refresh_transaction], view = scenario_view\<rparr> 0
   = Some (Inr 2)"
  by (simp add: update_def refresh_transaction_def bind_r_def doUpdate_def)

subsection \<open>C4: the remap rule of the effects\<close>

text \<open>
  C4, as amended. The five effect types whose value carries a range (add and remove of a
  line decoration, add and remove of a mark decoration, add of a line widget) are mapped
  by the same rule: over any change both ends are mapped on their own and then ordered,
  so that \<open>from \<le> to\<close>, and the rest of the value stays as it is. The remove-line-widget
  effect carries the element only, has no range, and is carried over a change unchanged.
\<close>

theorem effects_remapped_amended:
  "remapped_by_rule change (addLineDecorationEffect v) \<and>
   remapped_by_rule change (removeLineDecorationEffect v) \<and>
   remapped_by_rule change (addMarkDecorationEffect v) \<and>
   remapped_by_rule change (removeMarkDecorationEffect v) \<and>
   remapped_by_rule change (addLineWidgetEffect w) \<and>
   effect_map change (removeLineWidgetEffect el) = removeLineWidgetEffect el \<and>
   effect_range (removeLineWidgetEffect el) = None \<and>
   cssClass (mapRange change v) = cssClass v \<and> css_id (mapRange change v) = css_id v \<and>
   element (mapRange change w) = element w \<and> options (mapRange change w) = options w"
  by (simp add: remapped_by_rule_def mapRange_def Let_def min_le_iff_disj le_max_iff_disj)

text \<open>The sixth effect type of the claim has no range that the rule could remap.\<close>

theorem removeLineWidgetEffect_not_remapped:
  "\<not> remapped_by_rule (\<lambda>pos. pos + 1) (removeLineWidgetEffect 0)"
  by (simp add: remapped_by_rule_def)

subsection \<open>C5: \<open>markText\<close> and the \<open>clear\<close> of its handle\<close>

text \<open>
  C5, as amended. For positions \<open>0 \<le> from < to\<close> inside the document,
  \<open>markText(from, to, {className: c})\<close> returns a handle, and the canonical set then holds
  a mark decoration of class \<open>c\<close> over \<open>[from, to]\<close> with the identity of the handle, which
  the range query of the canonical set over every line that meets \<open>[from, to)\<close> visits;
  \<open>clear()\<close> on the handle, called next, returns, and afterwards no decoration with that
  identity is in the canonical set, so that no range query visits one.
\<close>

theorem markText_then_clear_amended:
  assumes "0 \<le> from" and "from < to" and "to \<le> doc_length (doc (editor this))"
  shows "\<exists>this' h this''.
           markText from to (Some \<lparr>mark_className = Some c\<rparr>) this = Inr (this', h) \<and>
           css_id h = Some (nextLineWidgetId this) \<and> editor this' = editor this \<and>
           (\<forall>n ln p. doc_line (doc (editor this')) (n + 1) = Inr ln \<and>
                     from \<le> p \<and> p < to \<and> line_from ln \<le> p \<and> p \<le> line_to ln \<longrightarrow>
                (\<exists>r \<in> set (between (line_from ln) (line_to ln) (effectDecorations this')).
                    range_from r = from \<and> range_to r = to \<and>
                    kind (range_value r) = MarkDecoration \<and>
                    spec_attributes_class (spec (range_value r)) = Some c \<and>
                    spec_id (spec (range_value r)) = css_id h)) \<and>
           markText_clear h this' = Inr this'' \<and>
           (\<forall>r \<in> set (effectDecorations this''). spec_id (spec (range_value r)) \<noteq> css_id h) \<and>
           (\<forall>a b. \<forall>r \<in> set (between a b (effectDecorations this'')).
                spec_id (spec (range_value r)) \<noteq> css_id h)"
proof -
  let ?i = "nextLineWidgetId this"
  let ?h = "\<lparr>range_from = from, range_to = to, cssClass = c, css_id = Some ?i\<rparr>"
  let ?r = "plain_range (Decoration_mark c (Some ?i)) from to"
  let ?this' = "this\<lparr>nextLineWidgetId := ?i + 1,
                     effectDecorations := update_add ?r (effectDecorations this),
                     decorationCache := (decorationCache this)(c \<mapsto> Decoration_mark c (Some ?i))\<rparr>"
  have mt: "markText from to (Some \<lparr>mark_className = Some c\<rparr>) this = Inr (?this', ?h)"
    by (rule markText_result) (rule assms(2))
  have reflected: "\<exists>r \<in> set (between (line_from ln) (line_to ln) (effectDecorations ?this')).
                    range_from r = from \<and> range_to r = to \<and>
                    kind (range_value r) = MarkDecoration \<and>
                    spec_attributes_class (spec (range_value r)) = Some c \<and>
                    spec_id (spec (range_value r)) = css_id ?h"
    if "from \<le> p" "p < to" "line_from ln \<le> p" "p \<le> line_to ln" for ln :: line and p
  proof (rule bexI [of _ ?r])
    show "range_from ?r = from \<and> range_to ?r = to \<and>
          kind (range_value ?r) = MarkDecoration \<and>
          spec_attributes_class (spec (range_value ?r)) = Some c \<and>
          spec_id (spec (range_value ?r)) = css_id ?h"
      by (simp add: plain_range_def Decoration_mark_def)
    show "?r \<in> set (between (line_from ln) (line_to ln) (effectDecorations ?this'))"
      using that by (simp add: between_def plain_range_def)
  qed
  from assms have "0 \<le> to" "from \<le> doc_length (doc (editor this))" by simp_all
  with assms obtain l1 l2 where
    l1: "doc_lineAt (doc (editor ?this')) (range_from ?h) = Inr l1" and
    l2: "doc_lineAt (doc (editor ?this')) (range_to ?h) = Inr l2"
    using doc_lineAt_ok [of "from" "doc (editor this)"] doc_lineAt_ok [of "to" "doc (editor this)"]
    by auto
  have ident: "css_id ?h = Some ?i" by simp
  note cl = markText_clear_with_id [OF ident l1 l2]
  let ?this'' = "?this'\<lparr>effectDecorations :=
                 filter (\<lambda>r. spec_id (spec (range_value r)) \<noteq> Some ?i) (effectDecorations ?this'),
              decorationCache :=
                 snd (classNameToCssDecoration (cssClass ?h) False None (decorationCache ?this'))\<rparr>"
  have gone: "\<forall>r \<in> set (effectDecorations ?this''). spec_id (spec (range_value r)) \<noteq> css_id ?h"
    by simp
  have gone2: "\<forall>a b. \<forall>r \<in> set (between a b (effectDecorations ?this'')).
                spec_id (spec (range_value r)) \<noteq> css_id ?h"
    by (simp add: between_def)
  show ?thesis
    apply (rule exI [of _ ?this'], rule exI [of _ ?h], rule exI [of _ ?this''])
    apply (intro conjI allI impI)
    subgoal by (rule mt)
    subgoal by simp
    subgoal by simp
    subgoal for n ln p by (elim conjE, rule reflected [of p ln]) assumption+
    subgoal by (rule cl)
    subgoal by (rule gone)
    subgoal for a b using gone2 by blast
    done
qed

text \<open>A mark over offsets 1 to 5 of \<open>"abc\ndef"\<close>, beside a line class that stays.\<close>

theorem markText_then_clear_amended_witness:
  "(0::int) \<le> 1 \<and> (1::int) < 5 \<and> 5 \<le> doc_length (doc (editor lined_decorator)) \<and>
   doc_line (doc (editor lined_decorator)) (0 + 1)
      = Inr \<lparr>line_from = 0, line_to = 3, number = 1, line_text = ''abc''\<rparr> \<and>
   (\<exists>this' h this''.
       markText 1 5 (Some \<lparr>mark_className = Some ''m''\<rparr>) lined_decorator = Inr (this', h) \<and>
       (\<exists>r \<in> set (between 0 3 (effectDecorations this')).
           range_from r = 1 \<and> range_to r = 5 \<and>
           spec_attributes_class (spec (range_value r)) = Some ''m'') \<and>
       markText_clear h this' = Inr this'' \<and>
       effectDecorations this'' = [hl_line] \<and>
       spec_id (spec (range_value hl_line)) \<noteq> css_id h)"
proof -
  have h1: "(0::int) \<le> 1" and h2: "(1::int) < 5"
    and h3: "5 \<le> doc_length (doc (editor lined_decorator))"
    by (simp_all add: eval_defs)
  have ln: "doc_line (doc (editor lined_decorator)) (0 + 1)
      = Inr \<lparr>line_from = 0, line_to = 3, number = 1, line_text = ''abc''\<rparr>"
    by (simp add: eval_defs)
  from markText_then_clear_amended [OF h1 h2 h3, of "''m''"] obtain this' h this'' where
    mt: "markText 1 5 (Some \<lparr>mark_className = Some ''m''\<rparr>) lined_decorator = Inr (this', h)"
    and ed: "editor this' = editor lined_decorator"
    and reflected: "\<forall>n ln p. doc_line (doc (editor this')) (n + 1) = Inr ln \<and>
                     1 \<le> p \<and> p < 5 \<and> line_from ln \<le> p \<and> p \<le> line_to ln \<longrightarrow>
                (\<exists>r \<in> set (between (line_from ln) (line_to ln) (effectDecorations this')).
                    range_from r = 1 \<and> range_to r = 5 \<and>
                    kind (range_value r) = MarkDecoration \<and>
                    spec_attributes_class (spec (range_value r)) = Some ''m'' \<and>
                    spec_id (spec (range_value r)) = css_id h)"
    and cl: "markText_clear h this' = Inr this''"
    and gone: "\<forall>r \<in> set (effectDecorations this''). spec_id (spec (range_value r)) \<noteq> css_id h"
    by blast
  from reflected [rule_format, of 0 "\<lparr>line_from = 0, line_to = 3, number = 1, line_text = ''abc''\<rparr>" 1]
    ln ed
  have r: "\<exists>r \<in> set (between 0 3 (effectDecorations this')).
           range_from r = 1 \<and> range_to r = 5 \<and>
           spec_attributes_class (spec (range_value r)) = Some ''m''"
    by auto
  have "markText 1 5 (Some \<lparr>mark_className = Some ''m''\<rparr>) lined_decorator
          = Inr (marked_decorator, mark_handle)"
    by (simp add: marked_decorator_def mark_handle_def eval_defs)
  with mt have this': "this' = marked_decorator" and h: "h = mark_handle"
    by simp_all
  have "effectDecorations this'' = [hl_line]"
    using cl unfolding this' h
    by (auto simp: marked_decorator_def mark_handle_def eval_defs)
  moreover from this gone have "spec_id (spec (range_value hl_line)) \<noteq> css_id h"
    by simp
  ultimately show ?thesis
    using h1 h2 h3 ln mt r cl by blast
qed

text \<open>
  The claim as it is written fails at \<open>from = to\<close>: CodeMirror does not accept an empty
  mark, \<open>markText(0, 0, {className: 'm'})\<close> raises and returns no handle.
\<close>

theorem markText_empty_range_raises:
  "markText 0 0 (Some \<lparr>mark_className = Some ''m''\<rparr>) scenario_decorator = Inl RangeError"
  by (simp add: markText_empty)

subsection \<open>C6: a token call that does not advance\<close>

text \<open>
  C6. The claim is that a call of \<open>token\<close> that returns without advancing the cursor makes
  the recompute raise. The code raises when the position after the call is equal to the
  position before it, and its message reads \<open>position did not increase\<close>; a call that moves
  the cursor back is not caught. On the line \<open>abc\<close> the first call of the overlay here
  moves the stream from 0 to 2 and the second back from 2 to 1, returning \<open>null\<close>; the test
  \<open>reader.pos === lastPos\<close> compares 1 with 2, nothing is raised, and the recompute returns
  a decoration set.
\<close>

theorem backward_move_not_detected:
  "scan_after 1 backward_overlay abc_line
      (new_StringStream (line_text abc_line) (tabSize scenario_view)
         (int (length (indentUnit scenario_view))), 0, None :: unit option, ([], Map.empty))
     = Some (abc_reader 2, 2, None, ([], Map.empty)) \<and>
   \<not> eol (abc_reader 2) \<and>
   token backward_overlay (abc_reader 2) (None :: unit option) = (None, abc_reader 1, None) \<and>
   stream_pos (abc_reader 1) < stream_pos (abc_reader 2) \<and>
   createOverlayDecorations scenario_view backward_decorator
     = Some (Inr ([], backward_decorator))"
  by (simp add: overlay_eval)

subsection \<open>C7: the \<open>line-error\<close> overlay on three lines\<close>

text \<open>
  C7. On a document of three lines that each have a first character, all of it visible,
  the overlay that returns \<open>'line-error'\<close> for the first character of a line and \<open>null\<close>
  otherwise, registered alone on a new decorator, gives exactly three decorations: the
  line decoration of class \<open>cm-line-error\<close>, zero-width, at the start offset of each line,
  in ascending order of the offsets. Whenever \<open>createOverlayDecorations\<close> returns a
  decoration set, its ranges are in ascending order of \<open>(from, to)\<close>.
\<close>

theorem line_error_overlay_three_lines:
  "(la \<noteq> [] \<and> lb \<noteq> [] \<and> lc \<noteq> [] \<and>
    CHR 0x0A \<notin> set la \<and> CHR 0x0A \<notin> set lb \<and> CHR 0x0A \<notin> set lc \<longrightarrow>
      map line_from (doc_lines (three_lines la lb lc))
        = [0, int (length la) + 1, int (length la) + 1 + int (length lb) + 1] \<and>
      createOverlayDecorations (full_view (three_lines la lb lc) ts iu)
           ((create (full_view (three_lines la lb lc) ts iu))\<lparr>overlays := [line_error_overlay]\<rparr>)
         = Some (Inr ([plain_range cm_line_error 0 0,
                       plain_range cm_line_error (int (length la) + 1) (int (length la) + 1),
                       plain_range cm_line_error (int (length la) + int (length lb) + 2)
                          (int (length la) + int (length lb) + 2)],
                      (create (full_view (three_lines la lb lc) ts iu))
                        \<lparr>overlays := [line_error_overlay],
                         decorationCache := [''cm-line-error'' \<mapsto> cm_line_error]\<rparr>))) \<and>
   kind cm_line_error = LineDecoration \<and>
   (createOverlayDecorations v this = Some (Inr (ds, this')) \<longrightarrow>
      sorted (map (\<lambda>r. (range_from r, range_to r)) ds))"
proof (intro conjI impI)
  assume a: "la \<noteq> [] \<and> lb \<noteq> [] \<and> lc \<noteq> [] \<and>
    CHR 0x0A \<notin> set la \<and> CHR 0x0A \<notin> set lb \<and> CHR 0x0A \<notin> set lc"
  then show "map line_from (doc_lines (three_lines la lb lc))
        = [0, int (length la) + 1, int (length la) + 1 + int (length lb) + 1]"
    by (simp add: doc_lines_three)
  from a show "createOverlayDecorations (full_view (three_lines la lb lc) ts iu)
           ((create (full_view (three_lines la lb lc) ts iu))\<lparr>overlays := [line_error_overlay]\<rparr>)
         = Some (Inr ([plain_range cm_line_error 0 0,
                       plain_range cm_line_error (int (length la) + 1) (int (length la) + 1),
                       plain_range cm_line_error (int (length la) + int (length lb) + 2)
                          (int (length la) + int (length lb) + 2)],
                      (create (full_view (three_lines la lb lc) ts iu))
                        \<lparr>overlays := [line_error_overlay],
                         decorationCache := [''cm-line-error'' \<mapsto> cm_line_error]\<rparr>))"
    by (intro three_lines_overlay) simp_all
next
  show "kind cm_line_error = LineDecoration"
    by (simp add: cm_line_error_def Decoration_line_def)
next
  assume "createOverlayDecorations v this = Some (Inr (ds, this'))"
  then show "sorted (map (\<lambda>r. (range_from r, range_to r)) ds)"
    by (rule sorted_overlay_decorations)
qed

text \<open>The document \<open>"abc\ndef\ngh"\<close>.\<close>

theorem line_error_overlay_three_lines_witness:
  "''abc'' \<noteq> [] \<and> ''def'' \<noteq> [] \<and> ''gh'' \<noteq> [] \<and>
   CHR 0x0A \<notin> set ''abc'' \<and> CHR 0x0A \<notin> set ''def'' \<and> CHR 0x0A \<notin> set ''gh'' \<and>
   three_lines ''abc'' ''def'' ''gh'' = ''abc\<newline>def\<newline>gh'' \<and>
   createOverlayDecorations (full_view ''abc\<newline>def\<newline>gh'' 4 ''  '')
      ((create (full_view ''abc\<newline>def\<newline>gh'' 4 ''  '') :: unit decorator)
         \<lparr>overlays := [line_error_overlay]\<rparr>)
     = Some (Inr ([plain_range cm_line_error 0 0, plain_range cm_line_error 4 4,
                   plain_range cm_line_error 8 8],
                  (create (full_view ''abc\<newline>def\<newline>gh'' 4 ''  ''))
                    \<lparr>overlays := [line_error_overlay],
                     decorationCache := [''cm-line-error'' \<mapsto> cm_line_error]\<rparr>)) \<and>
   sorted (map (\<lambda>r. (range_from r, range_to r))
             [plain_range cm_line_error 0 0, plain_range cm_line_error 4 4,
              plain_range cm_line_error 8 8])"
proof -
  have hyp: "''abc'' \<noteq> [] \<and> ''def'' \<noteq> [] \<and> ''gh'' \<noteq> [] \<and>
   CHR 0x0A \<notin> set ''abc'' \<and> CHR 0x0A \<notin> set ''def'' \<and> CHR 0x0A \<notin> set ''gh''"
    by simp
  have doc3: "three_lines ''abc'' ''def'' ''gh'' = ''abc\<newline>def\<newline>gh''"
    by (simp add: three_lines_def)
  let ?v = "full_view ''abc\<newline>def\<newline>gh'' 4 ''  ''"
  let ?dec = "(create ?v :: unit decorator)\<lparr>overlays := [line_error_overlay]\<rparr>"
  let ?ds = "[plain_range cm_line_error 0 0, plain_range cm_line_error 4 4,
              plain_range cm_line_error 8 8]"
  let ?dec' = "(create ?v :: unit decorator)
                    \<lparr>overlays := [line_error_overlay],
                     decorationCache := [''cm-line-error'' \<mapsto> cm_line_error]\<rparr>"
  note inst = line_error_overlay_three_lines
    [where la = "''abc''" and lb = "''def''" and lc = "''gh''" and ts = 4 and iu = "''  ''"
      and v = ?v and this = ?dec and ds = ?ds and this' = ?dec']
  let ?w = "full_view (three_lines ''abc'' ''def'' ''gh'') 4 ''  ''"
  from inst hyp
  have "createOverlayDecorations ?w ((create ?w :: unit decorator)\<lparr>overlays := [line_error_overlay]\<rparr>)
         = Some (Inr ([plain_range cm_line_error 0 0,
                       plain_range cm_line_error (int (length ''abc'') + 1) (int (length ''abc'') + 1),
                       plain_range cm_line_error (int (length ''abc'') + int (length ''def'') + 2)
                          (int (length ''abc'') + int (length ''def'') + 2)],
                      (create ?w)
                        \<lparr>overlays := [line_error_overlay],
                         decorationCache := [''cm-line-error'' \<mapsto> cm_line_error]\<rparr>))"
    by blast
  then have res: "createOverlayDecorations ?v ?dec = Some (Inr (?ds, ?dec'))"
    by (simp add: doc3)
  from inst
  have "createOverlayDecorations ?v ?dec = Some (Inr (?ds, ?dec')) \<longrightarrow>
          sorted (map (\<lambda>r. (range_from r, range_to r)) ?ds)"
    by blast
  with res have "sorted (map (\<lambda>r. (range_from r, range_to r)) ?ds)"
    by blast
  with hyp doc3 res show ?thesis
    by blast
qed

subsection \<open>C8: the decoration cache\<close>

text \<open>
  C8. The claim is that a request with an identity goes past the cache, so that the
  requests without identity for a class all return the one cached decoration. A request
  with an identity does not read the cache but stores its decoration there: after the
  line decoration of class \<open>a\<close> is cached, a request for a mark of class \<open>a\<close> with identity 5
  replaces the entry, and the next request without identity returns that mark with its
  identity, not the decoration the first request returned.
\<close>

theorem cache_overwritten_by_identity_request:
  "(let (d1, c1) = classNameToCssDecoration ''a'' True None Map.empty;
        (d2, c2) = classNameToCssDecoration ''a'' False (Some 5) c1;
        (d3, c3) = classNameToCssDecoration ''a'' True None c2
    in d1 = Decoration_line ''a'' None \<and> c1 ''a'' = Some d1 \<and>
       d2 = Decoration_mark ''a'' (Some 5) \<and> c2 ''a'' = Some d2 \<and>
       d3 = d2 \<and> d3 \<noteq> d1 \<and> spec_id (spec d3) = Some 5)"
  by (simp add: classNameToCssDecoration_def Let_def Decoration_line_def Decoration_mark_def)

subsection \<open>C9: \<open>clear\<close> a second time\<close>

text \<open>
  C9. When \<open>clear()\<close> of a mark handle has returned, a second \<open>clear()\<close> on the same handle
  returns as well and leaves the canonical set as it is; for a handle that carries an
  identity no decoration of the set has that identity any more, so the filter of the
  second remove effect drops nothing. \<open>clear()\<close> of a line widget handle always returns, a
  second \<open>clear()\<close> leaves the canonical set as it is, and no decoration of the set wraps the
  handle's node when the second call runs.
\<close>

theorem clear_twice_noop:
  "(markText_clear h this = Inr this' \<longrightarrow>
      (\<exists>this''. markText_clear h this' = Inr this'' \<and>
                effectDecorations this'' = effectDecorations this' \<and>
                (css_id h \<noteq> None \<longrightarrow>
                   (\<forall>r \<in> set (effectDecorations this').
                       spec_id (spec (range_value r)) \<noteq> css_id h)))) \<and>
   (\<exists>that' that''. lineWidget_clear w that = Inr that' \<and>
        lineWidget_clear w that' = Inr that'' \<and>
        effectDecorations that'' = effectDecorations that' \<and>
        (\<forall>r \<in> set (effectDecorations that'). \<not> wraps (range_value r) (node w)))"
proof (intro conjI impI)
  assume first: "markText_clear h this = Inr this'"
  then have step: "apply_effect (doc (editor this)) (removeMarkDecorationEffect h)
                     (effectDecorations this, decorationCache this)
                   = Inr (effectDecorations this', decorationCache this')"
    and ed: "editor this' = editor this"
    using dispatch_single_Inr [of "removeMarkDecorationEffect h" this this']
    by (simp_all add: markText_clear_def)
  have second: "markText_clear h this' = Inr this'"
    using apply_removeMark_again [OF step] ed
    by (simp add: markText_clear_def dispatch_single)
  have gone: "css_id h \<noteq> None \<longrightarrow>
                (\<forall>r \<in> set (effectDecorations this'). spec_id (spec (range_value r)) \<noteq> css_id h)"
    using apply_removeMark_gone [OF step] by blast
  show "\<exists>this''. markText_clear h this' = Inr this'' \<and>
                effectDecorations this'' = effectDecorations this' \<and>
                (css_id h \<noteq> None \<longrightarrow>
                   (\<forall>r \<in> set (effectDecorations this').
                       spec_id (spec (range_value r)) \<noteq> css_id h))"
    using second gone by blast
next
  let ?that' = "that\<lparr>effectDecorations :=
                 filter (\<lambda>r. \<not> wraps (range_value r) (node w)) (effectDecorations that)\<rparr>"
  have one: "lineWidget_clear w that = Inr ?that'"
    by (rule lineWidget_clear_result)
  have two: "lineWidget_clear w ?that' = Inr ?that'"
    by (simp add: lineWidget_clear_result)
  have none: "\<forall>r \<in> set (effectDecorations ?that'). \<not> wraps (range_value r) (node w)"
    by simp
  show "\<exists>that' that''. lineWidget_clear w that = Inr that' \<and>
        lineWidget_clear w that' = Inr that'' \<and>
        effectDecorations that'' = effectDecorations that' \<and>
        (\<forall>r \<in> set (effectDecorations that'). \<not> wraps (range_value r) (node w))"
    using one two none by blast
qed

text \<open>The mark of the fixture cleared twice, and the widget on element 1 cleared twice.\<close>

theorem clear_twice_noop_witness:
  "markText_clear mark_handle marked_decorator = Inr cleared_decorator \<and>
   css_id mark_handle \<noteq> None \<and>
   hl_line \<in> set (effectDecorations cleared_decorator) \<and>
   spec_id (spec (range_value hl_line)) \<noteq> css_id mark_handle \<and>
   (\<exists>this''. markText_clear mark_handle cleared_decorator = Inr this'' \<and>
        effectDecorations this'' = [hl_line]) \<and>
   (\<exists>that' that''.
        lineWidget_clear \<lparr>node = 1, control_className = None\<rparr> widget_decorator = Inr that' \<and>
        lineWidget_clear \<lparr>node = 1, control_className = None\<rparr> that' = Inr that'' \<and>
        effectDecorations that'' = effectDecorations that' \<and>
        widget_two \<in> set (effectDecorations that') \<and>
        \<not> wraps (range_value widget_two) 1)"
proof -
  have first: "markText_clear mark_handle marked_decorator = Inr cleared_decorator"
    by (simp add: cleared_decorator_def marked_decorator_def mark_handle_def eval_defs)
  have ident: "css_id mark_handle \<noteq> None"
    by (simp add: mark_handle_def)
  have left: "effectDecorations cleared_decorator = [hl_line]"
    by (simp add: cleared_decorator_def)
  note inst = clear_twice_noop [of mark_handle marked_decorator cleared_decorator
      "\<lparr>node = 1, control_className = None\<rparr>" widget_decorator]
  from inst first ident obtain this'' where
    second: "markText_clear mark_handle cleared_decorator = Inr this''"
    and same: "effectDecorations this'' = effectDecorations cleared_decorator"
    and gone: "\<forall>r \<in> set (effectDecorations cleared_decorator).
                 spec_id (spec (range_value r)) \<noteq> css_id mark_handle"
    by blast
  from inst obtain that' that'' where
    w1: "lineWidget_clear \<lparr>node = 1, control_className = None\<rparr> widget_decorator = Inr that'"
    and w2: "lineWidget_clear \<lparr>node = 1, control_className = None\<rparr> that' = Inr that''"
    and wsame: "effectDecorations that'' = effectDecorations that'"
    and wnone: "\<forall>r \<in> set (effectDecorations that').
                  \<not> wraps (range_value r) (node \<lparr>node = 1, control_className = None\<rparr>)"
    by blast
  have "widget_two \<in> set (effectDecorations that')"
    using w1
    by (auto simp: lineWidget_clear_result widget_decorator_def widget_fixture_def wraps_def
        widget_two_def widget_one_def plain_range_def Decoration_widget_def)
  with wnone have "widget_two \<in> set (effectDecorations that') \<and> \<not> wraps (range_value widget_two) 1"
    by auto
  with first ident left second same gone w1 w2 wsame show ?thesis
    by auto
qed

subsection \<open>C10: what a remove-line-widget effect leaves\<close>

text \<open>
  C10. A remove-line-widget effect does not raise and does not touch the cache; the
  canonical set afterwards is the set before without the decorations that wrap the
  element of the effect, the others unchanged and in their order. Every line decoration
  and every mark decoration that the cache makes, and every widget decoration that wraps
  another element, is still in the set.
\<close>

theorem removeLineWidget_frame:
  "\<exists>ds'. apply_effect d (removeLineWidgetEffect el) (ds, cache) = Inr (ds', cache) \<and>
     ds' = filter (\<lambda>r. \<not> wraps (range_value r) el) ds \<and>
     (\<forall>r \<in> set ds. range_value r = Decoration_line cls i \<or> range_value r = Decoration_mark cls i
          \<longrightarrow> r \<in> set ds') \<and>
     (\<forall>r \<in> set ds. \<forall>w. spec_widget (spec (range_value r)) = Some w \<and> wrapper_element w \<noteq> el
          \<longrightarrow> r \<in> set ds')"
  by (auto simp: update_filter_def wraps_def Decoration_line_def Decoration_mark_def
      split: option.splits intro!: filter_cong)

text \<open>The widget on element 1 removed from beside a line class, a mark and a second widget.\<close>

theorem removeLineWidget_frame_witness:
  "hl_line \<in> set widget_fixture \<and> range_value hl_line = Decoration_line ''hl'' None \<and>
   widget_two \<in> set widget_fixture \<and>
   spec_widget (spec (range_value widget_two))
     = Some \<lparr>wrapper_element = 2, wrapper_options = no_options\<rparr> \<and>
   wrapper_element \<lparr>wrapper_element = 2, wrapper_options = no_options\<rparr> \<noteq> 1 \<and>
   (\<exists>ds'. apply_effect ''abc\<newline>def'' (removeLineWidgetEffect 1) (widget_fixture, Map.empty)
             = Inr (ds', Map.empty) \<and>
          hl_line \<in> set ds' \<and> widget_two \<in> set ds' \<and> widget_one \<notin> set ds')"
proof -
  have a: "hl_line \<in> set widget_fixture" "range_value hl_line = Decoration_line ''hl'' None"
    by (simp_all add: widget_fixture_def hl_line_def plain_range_def)
  have b: "widget_two \<in> set widget_fixture"
    "spec_widget (spec (range_value widget_two))
       = Some \<lparr>wrapper_element = 2, wrapper_options = no_options\<rparr>"
    "wrapper_element \<lparr>wrapper_element = 2, wrapper_options = no_options\<rparr> \<noteq> 1"
    by (simp_all add: widget_fixture_def widget_two_def plain_range_def Decoration_widget_def)
  from removeLineWidget_frame [of "''abc\<newline>def''" 1 widget_fixture Map.empty "''hl''" None]
  obtain ds' where
    res: "apply_effect ''abc\<newline>def'' (removeLineWidgetEffect 1) (widget_fixture, Map.empty)
            = Inr (ds', Map.empty)"
    and flt: "ds' = filter (\<lambda>r. \<not> wraps (range_value r) 1) widget_fixture"
    and lines: "\<forall>r \<in> set widget_fixture.
                  range_value r = Decoration_line ''hl'' None \<or>
                  range_value r = Decoration_mark ''hl'' None \<longrightarrow> r \<in> set ds'"
    and widgets: "\<forall>r \<in> set widget_fixture.
                  \<forall>w. spec_widget (spec (range_value r)) = Some w \<and> wrapper_element w \<noteq> 1
                      \<longrightarrow> r \<in> set ds'"
    by blast
  have "hl_line \<in> set ds'"
    using lines a by blast
  moreover have "widget_two \<in> set ds'"
    using widgets b by blast
  moreover have "widget_one \<notin> set ds'"
    by (simp add: flt wraps_def widget_one_def plain_range_def Decoration_widget_def)
  ultimately show ?thesis
    using a b res by blast
qed

end
